theory Spec2Isabelle
  imports Main "HOL-Library.Sublist"
begin

section \<open>Permission mode translation\<close>

subsection \<open>Unified permission modes (abstractions/core/types.ts)\<close>

text \<open>
  The closed enumeration \<^verbatim>\<open>PermissionMode\<close> of the abstraction layer, as the set of its
  string values.
\<close>

definition unifiedPermissionModes :: "string set" where
  "unifiedPermissionModes =
     {''default'', ''acceptEdits'', ''bypassPermissions'', ''plan'',
      ''ask'', ''auto'', ''on-failure'', ''allow-all''}"

subsection \<open>Gemini: mapPermissionMode (gemini/permission-mapper.ts)\<close>

text \<open>
  \<^verbatim>\<open>Gemini.ApprovalMode\<close> is the enum of the vendor SDK. The mapper's test file checks
  its three members against the strings \<^verbatim>\<open>'default'\<close>, \<^verbatim>\<open>'autoEdit'\<close> and \<^verbatim>\<open>'yolo'\<close>;
  \<open>approvalModeValue\<close> is that string value.
\<close>

datatype ApprovalMode = DEFAULT | AUTO_EDIT | YOLO

fun approvalModeValue :: "ApprovalMode \<Rightarrow> string" where
  "approvalModeValue DEFAULT = ''default''"
| "approvalModeValue AUTO_EDIT = ''autoEdit''"
| "approvalModeValue YOLO = ''yolo''"

definition geminiNativeModes :: "string set" where
  "geminiNativeModes = {''default'', ''autoEdit'', ''yolo''}"

text \<open>
  Modelled from the spec: \<^verbatim>\<open>GEMINI_DEFAULT_PERMISSION_MODE\<close> is
  \<^verbatim>\<open>getDefaultPermissionMode('gemini')\<close>, a function of \<^verbatim>\<open>@agor/core/types\<close> that is not
  among the sources. The agent has one designated default mode; the mapper's test file
  pins it to \<^verbatim>\<open>'autoEdit'\<close>.
\<close>

definition GEMINI_DEFAULT_PERMISSION_MODE :: string where
  "GEMINI_DEFAULT_PERMISSION_MODE = ''autoEdit''"

text \<open>
  The \<^verbatim>\<open>switch\<close> of the source, case by case. The argument is
  \<^verbatim>\<open>string | undefined\<close>; \<open>None\<close> is \<^verbatim>\<open>undefined\<close>, which matches no case. The
  \<^verbatim>\<open>default\<close> branch calls the function again on the default mode, so the model is a
  partial function: \<open>None\<close> as a result is a call that never returns.
\<close>

partial_function (option) mapPermissionMode :: "string option \<Rightarrow> ApprovalMode option" where
  "mapPermissionMode permissionMode =
     (if permissionMode = Some ''default'' then Some DEFAULT
      else if permissionMode = Some ''autoEdit'' then Some AUTO_EDIT
      else if permissionMode = Some ''yolo'' then Some YOLO
      else if permissionMode = Some ''ask'' then Some DEFAULT
      else if permissionMode = Some ''auto'' then Some AUTO_EDIT
      else if permissionMode = Some ''on-failure'' then Some AUTO_EDIT
      else if permissionMode = Some ''allow-all'' then Some YOLO
      else mapPermissionMode (Some GEMINI_DEFAULT_PERMISSION_MODE))"

subsection \<open>Claude Code: translatePermissionMode (abstractions/agents/claude-code-adapter.ts)\<close>

text \<open>The returned object has three optional flags; an absent flag is \<open>None\<close>.\<close>

record ClaudeFlags =
  autoApprove :: "bool option"
  requirePlan :: "bool option"
  askForConfirmation :: "bool option"

definition noFlags :: ClaudeFlags where
  "noFlags = \<lparr>autoApprove = None, requirePlan = None, askForConfirmation = None\<rparr>"

definition translatePermissionMode :: "string \<Rightarrow> ClaudeFlags" where
  "translatePermissionMode mode =
     (if mode = ''auto'' \<or> mode = ''allow-all'' \<or> mode = ''bypassPermissions''
        then noFlags\<lparr>autoApprove := Some True\<rparr>
      else if mode = ''plan'' then noFlags\<lparr>requirePlan := Some True\<rparr>
      else if mode = ''ask'' then noFlags\<lparr>askForConfirmation := Some True\<rparr>
      else if mode = ''acceptEdits''
        then noFlags\<lparr>autoApprove := Some False, askForConfirmation := Some True\<rparr>
      else noFlags)"

text \<open>\<^verbatim>\<open>getConfig().defaultPermissionMode\<close> of the Claude Code adapter.\<close>

definition claudeDefaultPermissionMode :: string where
  "claudeDefaultPermissionMode = ''default''"

section \<open>Codex response normalizer (codex/normalizer.ts)\<close>

text \<open>
  The raw \<^verbatim>\<open>turn.completed\<close> event. Every field of \<^verbatim>\<open>usage\<close> may be missing
  (\<^verbatim>\<open>undefined\<close> is \<open>None\<close>). Token counts are integers here; the source holds them in
  JavaScript numbers.
\<close>

record CodexUsage =
  input_tokens :: "int option"
  output_tokens :: "int option"
  cached_input_tokens :: "int option"
  total_tokens :: "int option"

record CodexSdkResponse =
  eventType :: string
  usage :: "CodexUsage option"
  model :: "string option"

record TokenUsage =
  inputTokens :: int
  outputTokens :: int
  totalTokens :: int
  cacheReadTokens :: int
  cacheCreationTokens :: int

record NormalizedSdkData =
  tokenUsage :: TokenUsage
  contextWindowLimit :: int
  primaryModel :: string
  durationMs :: "int option"

text \<open>\<^verbatim>\<open>x || 0\<close> on an optional number: \<^verbatim>\<open>undefined\<close> and \<^verbatim>\<open>0\<close> both give \<^verbatim>\<open>0\<close>.\<close>

definition orZero :: "int option \<Rightarrow> int" where
  "orZero x = (case x of None \<Rightarrow> 0 | Some n \<Rightarrow> if n = 0 then 0 else n)"

text \<open>
  \<^verbatim>\<open>DEFAULT_CODEX_MODEL\<close> and \<^verbatim>\<open>getCodexContextWindowLimit\<close> live in
  \<^verbatim>\<open>codex/models.ts\<close>, which is not among the sources: the normalizer takes them as its
  first two arguments.
\<close>

definition normalize ::
  "string \<Rightarrow> (string \<Rightarrow> int) \<Rightarrow> CodexSdkResponse \<Rightarrow> NormalizedSdkData" where
  "normalize DEFAULT_CODEX_MODEL getCodexContextWindowLimit event =
     (case usage event of
        None \<Rightarrow>
          \<lparr>tokenUsage = \<lparr>inputTokens = 0, outputTokens = 0, totalTokens = 0,
                          cacheReadTokens = 0, cacheCreationTokens = 0\<rparr>,
           contextWindowLimit = getCodexContextWindowLimit DEFAULT_CODEX_MODEL,
           primaryModel = DEFAULT_CODEX_MODEL,
           durationMs = None\<rparr>
      | Some u \<Rightarrow>
          (let inTok = orZero (input_tokens u);
               outTok = orZero (output_tokens u);
               cacheRead = orZero (cached_input_tokens u);
               limit = getCodexContextWindowLimit DEFAULT_CODEX_MODEL
           in \<lparr>tokenUsage = \<lparr>inputTokens = inTok, outputTokens = outTok,
                              totalTokens = inTok + outTok,
                              cacheReadTokens = cacheRead, cacheCreationTokens = 0\<rparr>,
               contextWindowLimit = limit,
               primaryModel = DEFAULT_CODEX_MODEL,
               durationMs = None\<rparr>))"

section \<open>Thrown values\<close>

text \<open>
  What a \<^verbatim>\<open>throw\<close> carries: an \<^verbatim>\<open>Error\<close> object with its \<^verbatim>\<open>name\<close> and \<^verbatim>\<open>message\<close>, or
  any other value, kept as the string \<^verbatim>\<open>String(value)\<close>. \<^verbatim>\<open>new Error(m)\<close> has the name
  \<^verbatim>\<open>'Error'\<close>.
\<close>

datatype thrown = JsError string string | NonError string

definition newError :: "string \<Rightarrow> thrown" where
  "newError msg = JsError ''Error'' msg"

fun errorName :: "thrown \<Rightarrow> string option" where
  "errorName (JsError n m) = Some n"
| "errorName (NonError v) = None"

section \<open>Agent adapters (abstractions/agents)\<close>

subsection \<open>Session data (abstractions/core/types.ts)\<close>

datatype SessionStatus = Idle | Running | Completed | Failed

record SessionConfig =
  config_id :: string
  agentType :: string
  permissionMode :: string
  parentSessionId :: "string option"
  worktreeId :: "string option"

text \<open>Timestamps are milliseconds on the clock that \<^verbatim>\<open>new Date()\<close> reads.\<close>

record SessionState =
  config :: SessionConfig
  status :: SessionStatus
  createdAt :: int
  updatedAt :: int
  taskIds :: "string list"

datatype ResponseStatus = Success | ErrorStatus | Partial

record AgentResponse =
  content :: string
  responseStatus :: ResponseStatus
  toolCalls :: "string list"
  filesModified :: "string list"
  metadata :: "(string \<times> string) list"

text \<open>The private fields of an adapter that its methods read and write.\<close>

record AdapterState =
  isInitialized :: bool
  sessions :: "string \<rightharpoonup> SessionState"

text \<open>
  The injected auth provider is outside the adapter. One call of \<^verbatim>\<open>execute\<close> asks it up
  to three times; each answer is a value or a thrown error: \<^verbatim>\<open>getCredentials\<close> and
  \<^verbatim>\<open>validateCredentials\<close> inside \<^verbatim>\<open>initialize\<close>, and \<^verbatim>\<open>getCredentials\<close> inside the
  \<^verbatim>\<open>try\<close> block of \<^verbatim>\<open>execute\<close>.
\<close>

type_synonym AuthCredentials = string

record AuthCalls =
  initCredentials :: "thrown + AuthCredentials"
  initValid :: "thrown + bool"
  turnCredentials :: "thrown + AuthCredentials"

subsection \<open>ClaudeCodeAdapter\<close>

record ClaudeCodeConfig =
  binaryPath :: "string option"
  defaultModel :: "string option"

definition ClaudeCodeAdapter_initialize :: "AuthCalls \<Rightarrow> AdapterState \<Rightarrow> thrown + AdapterState" where
  "ClaudeCodeAdapter_initialize authProvider a =
     (if isInitialized a then Inr a
      else case initCredentials authProvider of
             Inl e \<Rightarrow> Inl e
           | Inr credentials \<Rightarrow>
               (case initValid authProvider of
                  Inl e \<Rightarrow> Inl e
                | Inr isValid \<Rightarrow>
                    if \<not> isValid then Inl (newError ''Invalid Claude Code credentials'')
                    else Inr (a\<lparr>isInitialized := True\<rparr>)))"

text \<open>The source's stand-in for the vendor call: it returns a fixed response.\<close>

definition executeClaudeCodePrompt ::
  "ClaudeCodeConfig \<Rightarrow> SessionState \<Rightarrow> string \<Rightarrow> AuthCredentials \<Rightarrow> AgentResponse" where
  "executeClaudeCodePrompt cfg session prompt credentials =
     \<lparr>content = ''Response from Claude Code'',
      responseStatus = Success,
      toolCalls = [],
      filesModified = [],
      metadata = [(''model'', case defaultModel cfg of None \<Rightarrow> ''sonnet'' | Some m \<Rightarrow> m),
                  (''sessionId'', config_id (config session))]\<rparr>"

text \<open>
  \<^verbatim>\<open>execute\<close> returns the response or the thrown value, and the adapter's new state;
  \<open>now\<close> is the clock reading of \<^verbatim>\<open>new Date()\<close>.
\<close>

definition ClaudeCodeAdapter_execute ::
  "ClaudeCodeConfig \<Rightarrow> AuthCalls \<Rightarrow> int \<Rightarrow> AdapterState \<Rightarrow> string \<Rightarrow> string
     \<Rightarrow> (thrown + AgentResponse) \<times> AdapterState" where
  "ClaudeCodeAdapter_execute cfg authProvider now a sessionId prompt =
     (case ClaudeCodeAdapter_initialize authProvider a of
        Inl e \<Rightarrow> (Inl e, a)
      | Inr a1 \<Rightarrow>
          (case sessions a1 sessionId of
             None \<Rightarrow> (Inl (newError (''Session '' @ sessionId @ '' not found'')), a1)
           | Some session \<Rightarrow>
               (case turnCredentials authProvider of
                  Inr credentials \<Rightarrow>
                    (Inr (executeClaudeCodePrompt cfg session prompt credentials),
                     a1\<lparr>sessions := (sessions a1)
                          (sessionId \<mapsto> session\<lparr>status := Running, updatedAt := now\<rparr>)\<rparr>)
                | Inl error \<Rightarrow>
                    (Inl error,
                     a1\<lparr>sessions := (sessions a1)
                          (sessionId \<mapsto> session\<lparr>status := Failed, updatedAt := now\<rparr>)\<rparr>))))"

definition ClaudeCodeAdapter_terminateSession ::
  "int \<Rightarrow> AdapterState \<Rightarrow> string \<Rightarrow> (thrown + unit) \<times> AdapterState" where
  "ClaudeCodeAdapter_terminateSession now a sessionId =
     (case sessions a sessionId of
        None \<Rightarrow> (Inl (newError (''Session '' @ sessionId @ '' not found'')), a)
      | Some session \<Rightarrow>
          (Inr (),
           a\<lparr>sessions := (sessions a)
                (sessionId \<mapsto> session\<lparr>status := Completed, updatedAt := now\<rparr>)\<rparr>))"

definition ClaudeCodeAdapter_createSession ::
  "int \<Rightarrow> SessionConfig \<Rightarrow> AdapterState \<Rightarrow> SessionState \<times> AdapterState" where
  "ClaudeCodeAdapter_createSession now cfg a =
     (let state = \<lparr>config = cfg, status = Idle, createdAt = now, updatedAt = now,
                   taskIds = []\<rparr>
      in (state, a\<lparr>sessions := (sessions a)(config_id cfg \<mapsto> state)\<rparr>))"

subsection \<open>CodexAdapter\<close>

definition CodexAdapter_initialize :: "AuthCalls \<Rightarrow> AdapterState \<Rightarrow> thrown + AdapterState" where
  "CodexAdapter_initialize authProvider a =
     (if isInitialized a then Inr a
      else case initCredentials authProvider of
             Inl e \<Rightarrow> Inl e
           | Inr credentials \<Rightarrow>
               (case initValid authProvider of
                  Inl e \<Rightarrow> Inl e
                | Inr isValid \<Rightarrow>
                    if \<not> isValid then Inl (newError ''Invalid Codex credentials'')
                    else Inr (a\<lparr>isInitialized := True\<rparr>)))"

definition executeCodexPrompt :: "SessionState \<Rightarrow> string \<Rightarrow> AuthCredentials \<Rightarrow> AgentResponse" where
  "executeCodexPrompt session prompt credentials =
     \<lparr>content = ''Response from Codex'',
      responseStatus = Success,
      toolCalls = [],
      filesModified = [],
      metadata = [(''sessionId'', config_id (config session))]\<rparr>"

definition CodexAdapter_execute ::
  "AuthCalls \<Rightarrow> int \<Rightarrow> AdapterState \<Rightarrow> string \<Rightarrow> string
     \<Rightarrow> (thrown + AgentResponse) \<times> AdapterState" where
  "CodexAdapter_execute authProvider now a sessionId prompt =
     (case CodexAdapter_initialize authProvider a of
        Inl e \<Rightarrow> (Inl e, a)
      | Inr a1 \<Rightarrow>
          (case sessions a1 sessionId of
             None \<Rightarrow> (Inl (newError (''Session '' @ sessionId @ '' not found'')), a1)
           | Some session \<Rightarrow>
               (case turnCredentials authProvider of
                  Inr credentials \<Rightarrow>
                    (Inr (executeCodexPrompt session prompt credentials),
                     a1\<lparr>sessions := (sessions a1)
                          (sessionId \<mapsto> session\<lparr>status := Running, updatedAt := now\<rparr>)\<rparr>)
                | Inl error \<Rightarrow>
                    (Inl error,
                     a1\<lparr>sessions := (sessions a1)
                          (sessionId \<mapsto> session\<lparr>status := Failed, updatedAt := now\<rparr>)\<rparr>))))"

definition CodexAdapter_terminateSession ::
  "int \<Rightarrow> AdapterState \<Rightarrow> string \<Rightarrow> (thrown + unit) \<times> AdapterState" where
  "CodexAdapter_terminateSession now a sessionId =
     (case sessions a sessionId of
        None \<Rightarrow> (Inl (newError (''Session '' @ sessionId @ '' not found'')), a)
      | Some session \<Rightarrow>
          (Inr (),
           a\<lparr>sessions := (sessions a)
                (sessionId \<mapsto> session\<lparr>status := Completed, updatedAt := now\<rparr>)\<rparr>))"

definition CodexAdapter_createSession ::
  "int \<Rightarrow> SessionConfig \<Rightarrow> AdapterState \<Rightarrow> SessionState \<times> AdapterState" where
  "CodexAdapter_createSession now cfg a =
     (let state = \<lparr>config = cfg, status = Idle, createdAt = now, updatedAt = now,
                   taskIds = []\<rparr>
      in (state, a\<lparr>sessions := (sessions a)(config_id cfg \<mapsto> state)\<rparr>))"

subsection \<open>A concrete run\<close>

text \<open>
  A fresh adapter, a session \<^verbatim>\<open>s1\<close> created at time 1000, an authProvider provider whose calls
  all succeed, and one whose credentials call fails during the turn.
\<close>

definition freshAdapter :: AdapterState where
  "freshAdapter = \<lparr>isInitialized = False, sessions = Map.empty\<rparr>"

definition sessionS1 :: SessionConfig where
  "sessionS1 = \<lparr>config_id = ''s1'', agentType = ''claude-code'', permissionMode = ''default'',
                 parentSessionId = None, worktreeId = None\<rparr>"

definition authOk :: AuthCalls where
  "authOk = \<lparr>initCredentials = Inr ''key'', initValid = Inr True, turnCredentials = Inr ''key''\<rparr>"

definition networkDown :: thrown where
  "networkDown = JsError ''Error'' ''network down''"

definition authFailsInTurn :: AuthCalls where
  "authFailsInTurn =
     \<lparr>initCredentials = Inr ''key'', initValid = Inr True, turnCredentials = Inl networkDown\<rparr>"

definition claudeConfig :: ClaudeCodeConfig where
  "claudeConfig = \<lparr>binaryPath = None, defaultModel = None\<rparr>"

section \<open>MCP server scoping (base/mcp-scoping.ts)\<close>

text \<open>
  \<^verbatim>\<open>MCPServer\<close> is declared in \<^verbatim>\<open>@agor/core/types\<close>, which is not among the sources; the
  record has the fields that the resolver reads. \<^verbatim>\<open>env\<close> is kept as the list of its
  entries, a missing object or field is \<open>None\<close>.
\<close>

record MCPAuth =
  token :: "string option"
  api_url :: "string option"
  api_token :: "string option"
  api_secret :: "string option"

record MCPServer =
  mcp_server_id :: string
  name :: string
  transport :: string
  env :: "(string \<times> string) list option"
  url :: "string option"
  auth :: "MCPAuth option"



text \<open>
  \<^verbatim>\<open>resolveMcpServerTemplates\<close> comes from \<^verbatim>\<open>@agor/core/mcp\<close>, which is not among the
  sources. The resolver below takes it as its first argument, already applied to the
  template context of the call; this is the shape of what it returns. \<open>isValid\<close> is
  false when a required template did not resolve.
\<close>

record TemplateResolution =
  isValid :: bool
  errorMessage :: "string option"
  resolvedServer :: MCPServer
  unresolvedFields :: "string list"


text \<open>\<^verbatim>\<open>s.includes(search)\<close> on strings.\<close>

definition stringIncludes :: "string \<Rightarrow> string \<Rightarrow> bool" where
  "stringIncludes s search = sublist search s"






subsection \<open>The scoping rule in the words of the specification\<close>

text \<open>
  Deduplication by a key, the first entry with a key winning; the candidates of a
  session are the global servers followed by the session-assigned ones, deduplicated
  by server id. A candidate is dropped when it has templates and a required one
  did not resolve; a kept candidate with templates carries its resolved server.
\<close>

fun dedupeBy :: "('a \<Rightarrow> 'k) \<Rightarrow> 'a list \<Rightarrow> 'a list" where
  "dedupeBy key [] = []"
| "dedupeBy key (x # xs) = x # dedupeBy key (filter (\<lambda>y. key y \<noteq> key x) xs)"





subsection \<open>A concrete scoping scenario\<close>





section \<open>Claude prompt service (claude/prompt-service.ts)\<close>

subsection \<open>Numbers in template strings\<close>

text \<open>
  An integer inside a template string is printed in decimal, with a minus sign when it
  is negative. \<^verbatim>\<open>Math.round(ms / 1000)\<close> on an integer number of milliseconds rounds halves
  up.
\<close>

definition digitChar :: "nat \<Rightarrow> char" where
  "digitChar d = ''0123456789'' ! d"

function showNat :: "nat \<Rightarrow> string" where
  "showNat n = (if n < 10 then [digitChar n] else showNat (n div 10) @ [digitChar (n mod 10)])"
  by pat_completeness auto
termination
  by (relation "measure id") auto

declare showNat.simps [simp del]

definition showInt :: "int \<Rightarrow> string" where
  "showInt i = (if i < 0 then ''-'' @ showNat (nat (- i)) else showNat (nat i))"

definition roundDiv1000 :: "int \<Rightarrow> int" where
  "roundDiv1000 ms = (ms + 500) div 1000"

subsection \<open>Events of the message processor\<close>

text \<open>
  Modelled from the spec: \<^verbatim>\<open>ProcessedEvent\<close> is declared in
  \<^verbatim>\<open>claude/message-processor.ts\<close>, which is not among the sources. Its variants are
  the normalized events of the specification; their fields are the ones the prompt
  service reads (\<^verbatim>\<open>agentSessionId\<close>, \<^verbatim>\<open>reason\<close>, \<^verbatim>\<open>role\<close>, \<^verbatim>\<open>content\<close>,
  \<^verbatim>\<open>toolUses\<close>, and the \<^verbatim>\<open>usage\<close> of the raw result message).
\<close>

datatype MessageRole = USER | ASSISTANT | SYSTEM

type_synonym ContentBlock = "string \<times> string"

type_synonym ToolUse = "string \<times> string"

record SdkUsage =
  usage_input_tokens :: "int option"
  usage_output_tokens :: "int option"

datatype ProcessedEvent =
    Start
  | Chunk string
  | Complete MessageRole "ContentBlock list" "ToolUse list option"
  | Result "SdkUsage option"
  | SessionIdCaptured string
  | Stopped
  | ErrorEvent string
  | End string

text \<open>
  Modelled from the spec: a raw vendor event is a typed event with optional content and
  usage; \<open>session_id\<close> is the vendor's continuation id when the event reveals it.
\<close>

datatype RawKind =
    RawPartial string
  | RawAssistant "ContentBlock list" "ToolUse list option"
  | RawResult "SdkUsage option"
  | RawOther

record SDKMessage =
  kind :: RawKind
  session_id :: "string option"

text \<open>
  Modelled from the spec: the state of the processor, whose class is not among the
  sources. The prompt service reads \<^verbatim>\<open>lastActivityTime\<close>,
  \<^verbatim>\<open>idleTimeoutMs\<close> and \<^verbatim>\<open>messageCount\<close> from \<^verbatim>\<open>getState()\<close> and passes
  \<^verbatim>\<open>sessionId\<close>, \<^verbatim>\<open>existingSdkSessionId\<close>, \<^verbatim>\<open>enableTokenStreaming\<close> and
  \<^verbatim>\<open>idleTimeoutMs\<close> to the constructor; \<open>capturedSessionId\<close> records the captured
  continuation id. Times are clock readings in milliseconds.
\<close>

record ProcessorState =
  processorSessionId :: string
  existingSdkSessionId :: "string option"
  enableTokenStreaming :: bool
  idleTimeoutMs :: int
  lastActivityTime :: int
  messageCount :: nat
  capturedSessionId :: "string option"

text \<open>
  Modelled from the spec: the constructor of \<^verbatim>\<open>SDKMessageProcessor\<close>, which is not among
  the sources. The activity clock starts at the time of construction; nothing is
  processed or captured yet.
\<close>

definition SDKMessageProcessor_new ::
  "string \<Rightarrow> string option \<Rightarrow> bool \<Rightarrow> int \<Rightarrow> int \<Rightarrow> ProcessorState" where
  "SDKMessageProcessor_new sid existing streaming timeoutMs now =
     \<lparr>processorSessionId = sid, existingSdkSessionId = existing,
      enableTokenStreaming = streaming, idleTimeoutMs = timeoutMs,
      lastActivityTime = now, messageCount = 0, capturedSessionId = None\<rparr>"

text \<open>
  Modelled from the spec: \<^verbatim>\<open>hasTimedOut()\<close>, not among the sources. No event has arrived
  for longer than the configured threshold.
\<close>

definition hasTimedOut :: "ProcessorState \<Rightarrow> int \<Rightarrow> bool" where
  "hasTimedOut st now = (now - lastActivityTime st > idleTimeoutMs st)"

text \<open>
  Modelled from the spec: the events that one raw event stands for. Partial text is
  forwarded as a chunk (when token streaming is on), a fully assembled assistant message
  gives one complete event of its own, and a result event gives a result followed by
  the end.
\<close>

fun contentEvents :: "bool \<Rightarrow> RawKind \<Rightarrow> ProcessedEvent list" where
  "contentEvents streaming (RawPartial t) = (if streaming then [Chunk t] else [])"
| "contentEvents streaming (RawAssistant c tu) = [Complete ASSISTANT c tu]"
| "contentEvents streaming (RawResult u) = [Result u, End ''result'']"
| "contentEvents streaming RawOther = []"

text \<open>
  Modelled from the spec: \<^verbatim>\<open>process(msg)\<close>, not among the sources. Any event resets the
  activity clock and counts as processed. The first event that reveals the vendor's
  continuation id gives a \<open>SessionIdCaptured\<close> event, placed before the events of
  that raw event.
\<close>

definition process :: "ProcessorState \<Rightarrow> int \<Rightarrow> SDKMessage \<Rightarrow> ProcessedEvent list \<times> ProcessorState" where
  "process st now msg =
     (let st1 = st\<lparr>lastActivityTime := now, messageCount := messageCount st + 1\<rparr>;
          events = contentEvents (enableTokenStreaming st) (kind msg)
      in case (capturedSessionId st, session_id msg) of
           (None, Some sid) \<Rightarrow>
             (SessionIdCaptured sid # events, st1\<lparr>capturedSessionId := Some sid\<rparr>)
         | _ \<Rightarrow> (events, st1))"

subsection \<open>promptSessionStreaming\<close>

text \<open>
  The query is what \<^verbatim>\<open>setupQuery\<close> returns: here the raw messages in the order the
  \<^verbatim>\<open>for await\<close> loop receives them, each with the clock reading of its iteration, and the
  way the iterator ends, by completion or by a thrown error. The generator's effects
  are kept in order: an event yielded to the consumer, or the call
  \<^verbatim>\<open>sessionsRepo.update(sessionId, {sdk_session_id})\<close>. The generator itself returns
  or throws.
\<close>

datatype StreamEnd = Done | Throws thrown

datatype Effect = Yield ProcessedEvent | UpdateSession string

datatype LoopExit = LoopDone | LoopThrew thrown

datatype Outcome = Returned | Threw thrown

text \<open>The two static constants of the class.\<close>

definition IDLE_TIMEOUT_MS :: int where
  "IDLE_TIMEOUT_MS = 300000"

definition ENABLE_TOKEN_STREAMING :: bool where
  "ENABLE_TOKEN_STREAMING = True"

text \<open>
  The inner loop over the events of one raw message: a captured session id is stored
  (when there is a repository) and not yielded, an end event leaves the loop, every
  other event is yielded.
\<close>

fun isEnd :: "ProcessedEvent \<Rightarrow> bool" where
  "isEnd (End reason) = True"
| "isEnd e = False"

fun handleEvents :: "bool \<Rightarrow> ProcessedEvent list \<Rightarrow> Effect list" where
  "handleEvents sessionsRepo [] = []"
| "handleEvents sessionsRepo (SessionIdCaptured agentSessionId # rest) =
     (if sessionsRepo then [UpdateSession agentSessionId] else []) @ handleEvents sessionsRepo rest"
| "handleEvents sessionsRepo (End reason # rest) = []"
| "handleEvents sessionsRepo (event # rest) = Yield event # handleEvents sessionsRepo rest"

text \<open>The error thrown at the top of the loop body when the processor has timed out.\<close>

definition idleTimeoutError :: "ProcessorState \<Rightarrow> int \<Rightarrow> thrown" where
  "idleTimeoutError state now =
     (let idleSeconds = roundDiv1000 (now - lastActivityTime state);
          timeoutSeconds = roundDiv1000 (idleTimeoutMs state)
      in newError (''Claude SDK idle timeout: No activity for '' @ showInt idleSeconds
             @ ''s (timeout: '' @ showInt timeoutSeconds @ ''s). ''
             @ ''SDK may have hung or crashed. Last message type was #''
             @ showNat (messageCount state) @ ''.''))"

text \<open>
  The \<^verbatim>\<open>for await\<close> loop inside the \<^verbatim>\<open>try\<close> block. It returns the effects, the
  processor state when the loop is left, and whether it was left normally or by a
  throw (of the iterator or of the timeout check).
\<close>

fun streamLoop ::
  "bool \<Rightarrow> ProcessorState \<Rightarrow> (int \<times> SDKMessage) list \<Rightarrow> StreamEnd
     \<Rightarrow> Effect list \<times> ProcessorState \<times> LoopExit" where
  "streamLoop sessionsRepo st [] Done = ([], st, LoopDone)"
| "streamLoop sessionsRepo st [] (Throws error) = ([], st, LoopThrew error)"
| "streamLoop sessionsRepo st ((now, msg) # rest) end =
     (if hasTimedOut st now then ([], st, LoopThrew (idleTimeoutError st now))
      else (case process st now msg of
              (events, st') \<Rightarrow>
                if list_ex isEnd events then (handleEvents sessionsRepo events, st', LoopDone)
                else (case streamLoop sessionsRepo st' rest end of
                        (effects, st'', exit) \<Rightarrow>
                          (handleEvents sessionsRepo events @ effects, st'', exit))))"

text \<open>
  The \<^verbatim>\<open>catch\<close> block: the test for an abort
  (\<^verbatim>\<open>error.name === 'AbortError' || error.message.includes('abort')\<close> on an
  \<^verbatim>\<open>Error\<close>), and the error that is thrown otherwise, built from the message count, the
  text of the caught error and the captured stderr output.
\<close>

fun isAbort :: "thrown \<Rightarrow> bool" where
  "isAbort (JsError n message) = (n = ''AbortError'' \<or> stringIncludes message ''abort'')"
| "isAbort (NonError v) = False"

fun errorText :: "thrown \<Rightarrow> string" where
  "errorText (JsError n message) = message"
| "errorText (NonError v) = v"

definition errorContext :: "string \<Rightarrow> string" where
  "errorContext stderrOutput =
     (if stderrOutput = [] then []
      else [CHR 0x0A, CHR 0x0A] @ ''Claude Code stderr output:'' @ [CHR 0x0A] @ stderrOutput)"

definition enhancedError :: "ProcessorState \<Rightarrow> thrown \<Rightarrow> string \<Rightarrow> thrown" where
  "enhancedError state error stderrOutput =
     newError (''Claude SDK error after '' @ showNat (messageCount state) @ '' messages: ''
               @ errorText error @ errorContext stderrOutput)"

text \<open>
  The generator after \<^verbatim>\<open>setupQuery\<close>. \<open>sessionsRepo\<close> is \<open>None\<close> without a
  repository, and else holds the stored \<open>sdk_session_id\<close> of the session;
  \<open>stderrOutput\<close> is what \<^verbatim>\<open>getStderr()\<close> answers and \<open>t0\<close> the time at which
  the processor is created.
\<close>

definition promptSessionStreaming ::
  "string \<Rightarrow> string option option \<Rightarrow> string \<Rightarrow> int \<Rightarrow> (int \<times> SDKMessage) list \<times> StreamEnd
     \<Rightarrow> Effect list \<times> Outcome" where
  "promptSessionStreaming sessionId sessionsRepo stderrOutput t0 result =
     (let existingSdkSessionId = (case sessionsRepo of None \<Rightarrow> None | Some stored \<Rightarrow> stored);
          processor = SDKMessageProcessor_new sessionId existingSdkSessionId
                        ENABLE_TOKEN_STREAMING IDLE_TIMEOUT_MS t0
      in case streamLoop (sessionsRepo \<noteq> None) processor (fst result) (snd result) of
           (effects, state, LoopDone) \<Rightarrow> (effects, Returned)
         | (effects, state, LoopThrew error) \<Rightarrow>
             if isAbort error then (effects @ [Yield Stopped], Returned)
             else (effects, Threw (enhancedError state error stderrOutput)))"

subsection \<open>promptSession\<close>

text \<open>
  The non-streaming variant collects the complete assistant messages and the last
  usage of a result event. It has no timeout check, and its \<^verbatim>\<open>break\<close> on an end event
  leaves only the inner loop.
\<close>

type_synonym AssistantMessage = "ContentBlock list \<times> ToolUse list option"

record PromptResult =
  messages :: "AssistantMessage list"
  promptInputTokens :: int
  promptOutputTokens :: int

fun collectEvents ::
  "ProcessedEvent list \<Rightarrow> AssistantMessage list \<times> SdkUsage option
     \<Rightarrow> AssistantMessage list \<times> SdkUsage option" where
  "collectEvents [] acc = acc"
| "collectEvents (event # rest) (assistantMessages, usage0) =
     (let assistantMessages' =
            (case event of
               Complete ASSISTANT c toolUses \<Rightarrow> assistantMessages @ [(c, toolUses)]
             | _ \<Rightarrow> assistantMessages);
          usage1 = (case event of Result (Some u) \<Rightarrow> Some u | _ \<Rightarrow> usage0)
      in if isEnd event then (assistantMessages', usage1)
         else collectEvents rest (assistantMessages', usage1))"

fun collectLoop ::
  "ProcessorState \<Rightarrow> AssistantMessage list \<times> SdkUsage option
     \<Rightarrow> (int \<times> SDKMessage) list \<Rightarrow> StreamEnd
     \<Rightarrow> (AssistantMessage list \<times> SdkUsage option) \<times> LoopExit" where
  "collectLoop st acc [] Done = (acc, LoopDone)"
| "collectLoop st acc [] (Throws error) = (acc, LoopThrew error)"
| "collectLoop st acc ((now, msg) # rest) end =
     (case process st now msg of
        (events, st') \<Rightarrow> collectLoop st' (collectEvents events acc) rest end)"

definition promptResult :: "AssistantMessage list \<times> SdkUsage option \<Rightarrow> PromptResult" where
  "promptResult acc =
     \<lparr>messages = fst acc,
      promptInputTokens = orZero (case snd acc of None \<Rightarrow> None | Some u \<Rightarrow> usage_input_tokens u),
      promptOutputTokens = orZero (case snd acc of None \<Rightarrow> None | Some u \<Rightarrow> usage_output_tokens u)\<rparr>"

definition promptSession ::
  "string \<Rightarrow> string option option \<Rightarrow> int \<Rightarrow> (int \<times> SDKMessage) list \<times> StreamEnd
     \<Rightarrow> thrown + PromptResult" where
  "promptSession sessionId sessionsRepo t0 result =
     (let existingSdkSessionId = (case sessionsRepo of None \<Rightarrow> None | Some stored \<Rightarrow> stored);
          processor = SDKMessageProcessor_new sessionId existingSdkSessionId
                        False IDLE_TIMEOUT_MS t0
      in case collectLoop processor ([], None) (fst result) (snd result) of
           (acc, LoopDone) \<Rightarrow> Inr (promptResult acc)
         | (acc, LoopThrew error) \<Rightarrow>
             if isAbort error then Inr (promptResult acc) else Inl error)"

subsection \<open>Vocabulary for the properties\<close>

text \<open>
  Every message of a stream arrives at most \<open>threshold\<close> after the activity before
  it (the start, or the previous message); a raw result event; the assistant message
  carried by a raw event; a yielded complete event.
\<close>

fun withinIdleThreshold :: "int \<Rightarrow> int \<Rightarrow> (int \<times> 'a) list \<Rightarrow> bool" where
  "withinIdleThreshold threshold lastActivity [] = True"
| "withinIdleThreshold threshold lastActivity ((now, m) # rest) =
     (now - lastActivity \<le> threshold \<and> withinIdleThreshold threshold now rest)"

fun isRawResult :: "RawKind \<Rightarrow> bool" where
  "isRawResult (RawResult u) = True"
| "isRawResult k = False"

fun assistantMessageOf :: "RawKind \<Rightarrow> AssistantMessage list" where
  "assistantMessageOf (RawAssistant c toolUses) = [(c, toolUses)]"
| "assistantMessageOf k = []"

fun isComplete :: "Effect \<Rightarrow> bool" where
  "isComplete (Yield (Complete r c t)) = True"
| "isComplete e = False"

text \<open>
  The processor state after a list of messages has been processed, and the effects of
  the loop over them when none of them ends it.
\<close>

fun stateAfter :: "ProcessorState \<Rightarrow> (int \<times> SDKMessage) list \<Rightarrow> ProcessorState" where
  "stateAfter st [] = st"
| "stateAfter st ((now, msg) # rest) = stateAfter (snd (process st now msg)) rest"

fun prefixEffects :: "bool \<Rightarrow> ProcessorState \<Rightarrow> (int \<times> SDKMessage) list \<Rightarrow> Effect list" where
  "prefixEffects repo st [] = []"
| "prefixEffects repo st ((now, msg) # rest) =
     handleEvents repo (fst (process st now msg)) @ prefixEffects repo (snd (process st now msg)) rest"

subsection \<open>Concrete streams\<close>

text \<open>
  An initial event revealing the continuation id, a partial text without it, a
  tool-call message, a final answer, a result event, and the error of an abort.
\<close>

definition initMsg :: SDKMessage where
  "initMsg = \<lparr>kind = RawOther, session_id = Some ''vendor-1''\<rparr>"

definition earlyChunk :: SDKMessage where
  "earlyChunk = \<lparr>kind = RawPartial ''Hel'', session_id = None\<rparr>"

definition toolCallMsg :: SDKMessage where
  "toolCallMsg = \<lparr>kind = RawAssistant [(''tool_use'', ''Read'')] (Some [(''t1'', ''Read'')]),
                   session_id = Some ''vendor-1''\<rparr>"

definition answerMsg :: SDKMessage where
  "answerMsg = \<lparr>kind = RawAssistant [(''text'', ''done'')] None, session_id = Some ''vendor-1''\<rparr>"

definition abortError :: thrown where
  "abortError = JsError ''AbortError'' ''The operation was aborted''"

definition resultMsg :: SDKMessage where
  "resultMsg = \<lparr>kind = RawResult (Some \<lparr>usage_input_tokens = Some 10, usage_output_tokens = Some 5\<rparr>),
                 session_id = Some ''vendor-1''\<rparr>"

section \<open>Properties of permission mode translation\<close>

lemma mapPermissionMode_default_mode:
  "mapPermissionMode (Some GEMINI_DEFAULT_PERMISSION_MODE) = Some AUTO_EDIT"
  by (subst mapPermissionMode.simps) (simp add: GEMINI_DEFAULT_PERMISSION_MODE_def)

lemma mapPermissionMode_cases:
  "mapPermissionMode m =
     (if m = Some ''default'' \<or> m = Some ''ask'' then Some DEFAULT
      else if m = Some ''yolo'' \<or> m = Some ''allow-all'' then Some YOLO
      else Some AUTO_EDIT)"
  by (subst mapPermissionMode.simps) (simp add: mapPermissionMode_default_mode)

text \<open>
  C1. Both translators are total. Every unified mode is mapped. An input outside the
  unified and native modes (\<^verbatim>\<open>undefined\<close> included, for Gemini) gets exactly what the
  agent's designated default mode gets: \<open>AUTO_EDIT\<close> for Gemini and the empty flag
  object for Claude Code, neither of which approves everything (\<open>YOLO\<close>,
  \<open>autoApprove = true\<close>).
\<close>

theorem permission_translation_total_safe_default:
  "(\<exists>a. mapPermissionMode m = Some a)
   \<and> (\<forall>u \<in> unifiedPermissionModes. \<exists>a. mapPermissionMode (Some u) = Some a)
   \<and> (m \<notin> Some ` (unifiedPermissionModes \<union> geminiNativeModes) \<longrightarrow>
        mapPermissionMode m = mapPermissionMode (Some GEMINI_DEFAULT_PERMISSION_MODE)
        \<and> mapPermissionMode m = Some AUTO_EDIT
        \<and> mapPermissionMode m \<noteq> Some YOLO)
   \<and> (s \<notin> unifiedPermissionModes \<longrightarrow>
        translatePermissionMode s = translatePermissionMode claudeDefaultPermissionMode
        \<and> translatePermissionMode s = noFlags
        \<and> autoApprove (translatePermissionMode s) \<noteq> Some True)"
proof -
  have total: "\<exists>a. mapPermissionMode x = Some a" for x
    by (simp add: mapPermissionMode_cases)
  have gem: "mapPermissionMode m = Some AUTO_EDIT"
    if "m \<notin> Some ` (unifiedPermissionModes \<union> geminiNativeModes)"
    using that
    by (auto simp: mapPermissionMode_cases unifiedPermissionModes_def geminiNativeModes_def)
  have cl: "translatePermissionMode s = noFlags" if "s \<notin> unifiedPermissionModes"
    using that by (auto simp: translatePermissionMode_def unifiedPermissionModes_def)
  have cld: "translatePermissionMode claudeDefaultPermissionMode = noFlags"
    by (simp add: translatePermissionMode_def claudeDefaultPermissionMode_def)
  show ?thesis
    using total gem cl cld by (auto simp: mapPermissionMode_default_mode noFlags_def)
qed

theorem permission_translation_total_safe_default_witness:
  "Some ''sudo'' \<notin> Some ` (unifiedPermissionModes \<union> geminiNativeModes)
   \<and> ''sudo'' \<notin> unifiedPermissionModes
   \<and> ''plan'' \<in> unifiedPermissionModes
   \<and> mapPermissionMode (Some ''sudo'') = Some AUTO_EDIT
   \<and> mapPermissionMode (Some ''plan'') = Some AUTO_EDIT
   \<and> translatePermissionMode ''sudo'' = noFlags"
proof -
  have a: "Some ''sudo'' \<notin> Some ` (unifiedPermissionModes \<union> geminiNativeModes)"
    by (simp add: unifiedPermissionModes_def geminiNativeModes_def image_iff)
  have b: "''sudo'' \<notin> unifiedPermissionModes"
    by (simp add: unifiedPermissionModes_def)
  have c: "''plan'' \<in> unifiedPermissionModes"
    by (simp add: unifiedPermissionModes_def)
  have d: "mapPermissionMode (Some ''plan'') = Some AUTO_EDIT"
    by (simp add: mapPermissionMode_cases)
  show ?thesis
    using a b c d
      permission_translation_total_safe_default [of "Some ''sudo''" "''sudo''"]
    by blast
qed

text \<open>
  C9. Translating the string value of a translation result gives the same result, and
  the designated default mode is translated to itself.
\<close>

theorem mapPermissionMode_idempotent:
  "(\<exists>a. mapPermissionMode x = Some a
        \<and> mapPermissionMode (Some (approvalModeValue a)) = Some a)
   \<and> map_option approvalModeValue (mapPermissionMode (Some GEMINI_DEFAULT_PERMISSION_MODE))
       = Some GEMINI_DEFAULT_PERMISSION_MODE"
  by (simp add: mapPermissionMode_cases GEMINI_DEFAULT_PERMISSION_MODE_def)

section \<open>Properties of the Codex normalizer\<close>

text \<open>
  C10. For every raw event the normalizer returns a record (the function is total) whose
  total is the sum of input and output tokens and whose cache-creation count is zero.
  Without a usage field every count is zero and the default model is reported together
  with the context-window limit looked up for it.
\<close>

theorem normalize_token_usage:
  "totalTokens (tokenUsage (normalize D L ev))
     = inputTokens (tokenUsage (normalize D L ev)) + outputTokens (tokenUsage (normalize D L ev))
   \<and> cacheCreationTokens (tokenUsage (normalize D L ev)) = 0
   \<and> (usage ev = None \<longrightarrow>
        tokenUsage (normalize D L ev)
          = \<lparr>inputTokens = 0, outputTokens = 0, totalTokens = 0,
             cacheReadTokens = 0, cacheCreationTokens = 0\<rparr>
        \<and> primaryModel (normalize D L ev) = D
        \<and> contextWindowLimit (normalize D L ev) = L D)"
  by (simp add: normalize_def Let_def split: option.split)

theorem normalize_token_usage_witness:
  "usage \<lparr>eventType = ''turn.completed'', usage = None, model = None\<rparr> = None
   \<and> normalize ''gpt-5-codex'' (\<lambda>m. 200000)
        \<lparr>eventType = ''turn.completed'', usage = None, model = None\<rparr>
       = \<lparr>tokenUsage = \<lparr>inputTokens = 0, outputTokens = 0, totalTokens = 0,
                        cacheReadTokens = 0, cacheCreationTokens = 0\<rparr>,
          contextWindowLimit = 200000, primaryModel = ''gpt-5-codex'', durationMs = None\<rparr>
   \<and> totalTokens (tokenUsage (normalize ''gpt-5-codex'' (\<lambda>m. 200000)
        \<lparr>eventType = ''turn.completed'',
         usage = Some \<lparr>input_tokens = Some 1200, output_tokens = Some 800,
                       cached_input_tokens = Some 300, total_tokens = None\<rparr>,
         model = None\<rparr>)) = 2000"
proof -
  have "durationMs (normalize ''gpt-5-codex'' (\<lambda>m. 200000)
          \<lparr>eventType = ''turn.completed'', usage = None, model = None\<rparr>) = None"
    by (simp add: normalize_def)
  moreover have "totalTokens (tokenUsage (normalize ''gpt-5-codex'' (\<lambda>m. 200000)
        \<lparr>eventType = ''turn.completed'',
         usage = Some \<lparr>input_tokens = Some 1200, output_tokens = Some 800,
                       cached_input_tokens = Some 300, total_tokens = None\<rparr>,
         model = None\<rparr>)) = 2000"
    using normalize_token_usage [of "''gpt-5-codex''" "\<lambda>m. 200000"
        "\<lparr>eventType = ''turn.completed'',
         usage = Some \<lparr>input_tokens = Some 1200, output_tokens = Some 800,
                       cached_input_tokens = Some 300, total_tokens = None\<rparr>,
         model = None\<rparr>"]
    by (simp add: normalize_def orZero_def)
  ultimately show ?thesis
    using normalize_token_usage [of "''gpt-5-codex''" "\<lambda>m. 200000"
        "\<lparr>eventType = ''turn.completed'', usage = None, model = None\<rparr>"]
    by (simp add: NormalizedSdkData.equality)
qed

section \<open>Properties of the adapters\<close>

lemma ClaudeCodeAdapter_execute_success:
  assumes "fst (ClaudeCodeAdapter_execute cfg authProvider now a sid p) = Inr r"
  shows "\<exists>s. sessions (snd (ClaudeCodeAdapter_execute cfg authProvider now a sid p)) sid = Some s
             \<and> status s = Running \<and> updatedAt s = now"
  using assms
  by (auto simp: ClaudeCodeAdapter_execute_def split: sum.splits option.splits)

lemma CodexAdapter_execute_success:
  assumes "fst (CodexAdapter_execute authProvider now a sid p) = Inr r"
  shows "\<exists>s. sessions (snd (CodexAdapter_execute authProvider now a sid p)) sid = Some s
             \<and> status s = Running \<and> updatedAt s = now"
  using assms
  by (auto simp: CodexAdapter_execute_def split: sum.splits option.splits)

text \<open>
  C4, as the code has it. A session is \<open>Idle\<close> when created. When \<^verbatim>\<open>execute\<close> returns a
  response, the session's status is \<open>Running\<close>: the adapters set it after the vendor call
  has returned, and nothing sets it back. Only \<^verbatim>\<open>terminateSession\<close> moves a session to
  \<open>Completed\<close>.
\<close>

theorem execute_success_leaves_running:
  "(fst (ClaudeCodeAdapter_execute cfg authProvider now a sid p) = Inr r \<longrightarrow>
      (\<exists>s. sessions (snd (ClaudeCodeAdapter_execute cfg authProvider now a sid p)) sid = Some s
            \<and> status s = Running))
   \<and> (fst (CodexAdapter_execute authProvider now a sid p) = Inr r' \<longrightarrow>
      (\<exists>s. sessions (snd (CodexAdapter_execute authProvider now a sid p)) sid = Some s
            \<and> status s = Running))
   \<and> status (fst (ClaudeCodeAdapter_createSession now c a)) = Idle
   \<and> status (fst (CodexAdapter_createSession now c a)) = Idle
   \<and> (sessions a sid = Some s0 \<longrightarrow>
        map_option status (sessions (snd (ClaudeCodeAdapter_terminateSession now a sid)) sid)
          = Some Completed
        \<and> map_option status (sessions (snd (CodexAdapter_terminateSession now a sid)) sid)
          = Some Completed)"
proof -
  have "status (fst (ClaudeCodeAdapter_createSession now c a)) = Idle"
    by (simp add: ClaudeCodeAdapter_createSession_def Let_def)
  moreover have "status (fst (CodexAdapter_createSession now c a)) = Idle"
    by (simp add: CodexAdapter_createSession_def Let_def)
  moreover have "sessions a sid = Some s0 \<Longrightarrow>
        map_option status (sessions (snd (ClaudeCodeAdapter_terminateSession now a sid)) sid)
          = Some Completed"
    by (simp add: ClaudeCodeAdapter_terminateSession_def)
  moreover have "sessions a sid = Some s0 \<Longrightarrow>
        map_option status (sessions (snd (CodexAdapter_terminateSession now a sid)) sid)
          = Some Completed"
    by (simp add: CodexAdapter_terminateSession_def)
  ultimately show ?thesis
    using ClaudeCodeAdapter_execute_success [of cfg authProvider now a sid p r]
      CodexAdapter_execute_success [of authProvider now a sid p r']
    by blast
qed

theorem execute_success_leaves_running_witness:
  "fst (ClaudeCodeAdapter_execute claudeConfig authOk 2000
         (snd (ClaudeCodeAdapter_createSession 1000 sessionS1 freshAdapter)) ''s1'' ''hi'')
     = Inr (executeClaudeCodePrompt claudeConfig
             (fst (ClaudeCodeAdapter_createSession 1000 sessionS1 freshAdapter)) ''hi'' ''key'')
   \<and> fst (CodexAdapter_execute authOk 2000
         (snd (ClaudeCodeAdapter_createSession 1000 sessionS1 freshAdapter)) ''s1'' ''hi'')
     = Inr (executeCodexPrompt
             (fst (ClaudeCodeAdapter_createSession 1000 sessionS1 freshAdapter)) ''hi'' ''key'')
   \<and> sessions (snd (ClaudeCodeAdapter_createSession 1000 sessionS1 freshAdapter)) ''s1''
       = Some (fst (ClaudeCodeAdapter_createSession 1000 sessionS1 freshAdapter))
   \<and> (\<exists>s. sessions (snd (ClaudeCodeAdapter_execute claudeConfig authOk 2000
         (snd (ClaudeCodeAdapter_createSession 1000 sessionS1 freshAdapter)) ''s1'' ''hi'')) ''s1''
           = Some s \<and> status s = Running)
   \<and> (\<exists>s. sessions (snd (CodexAdapter_execute authOk 2000
         (snd (ClaudeCodeAdapter_createSession 1000 sessionS1 freshAdapter)) ''s1'' ''hi'')) ''s1''
           = Some s \<and> status s = Running)
   \<and> map_option status (sessions (snd (ClaudeCodeAdapter_terminateSession 2000
         (snd (ClaudeCodeAdapter_createSession 1000 sessionS1 freshAdapter)) ''s1'')) ''s1'')
       = Some Completed"
proof -
  let ?a = "snd (ClaudeCodeAdapter_createSession 1000 sessionS1 freshAdapter)"
  let ?s = "fst (ClaudeCodeAdapter_createSession 1000 sessionS1 freshAdapter)"
  have a: "sessions ?a ''s1'' = Some ?s"
    by (simp add: ClaudeCodeAdapter_createSession_def sessionS1_def Let_def)
  have b: "fst (ClaudeCodeAdapter_execute claudeConfig authOk 2000 ?a ''s1'' ''hi'')
             = Inr (executeClaudeCodePrompt claudeConfig ?s ''hi'' ''key'')"
    by (simp add: ClaudeCodeAdapter_execute_def ClaudeCodeAdapter_initialize_def
        ClaudeCodeAdapter_createSession_def sessionS1_def freshAdapter_def authOk_def Let_def)
  have c: "fst (CodexAdapter_execute authOk 2000 ?a ''s1'' ''hi'')
             = Inr (executeCodexPrompt ?s ''hi'' ''key'')"
    by (simp add: CodexAdapter_execute_def CodexAdapter_initialize_def
        ClaudeCodeAdapter_createSession_def sessionS1_def freshAdapter_def authOk_def Let_def)
  show ?thesis
    using a b c
      execute_success_leaves_running [where cfg = claudeConfig and authProvider = authOk
        and now = 2000 and sid = "''s1''" and p = "''hi''" and a = ?a and ?s0.0 = ?s
        and r = "executeClaudeCodePrompt claudeConfig ?s ''hi'' ''key''"
        and r' = "executeCodexPrompt ?s ''hi'' ''key''"]
    by blast
qed

text \<open>
  C4 as stated fails: a session is created, one turn is executed and returns a response,
  no turn is in flight any more, and the session's status is \<open>Running\<close>, which is neither
  \<open>Idle\<close> nor \<open>Completed\<close>.
\<close>

theorem execute_success_not_idle_counterexample:
  "isl (fst (ClaudeCodeAdapter_execute claudeConfig authOk 2000
         (snd (ClaudeCodeAdapter_createSession 1000 sessionS1 freshAdapter)) ''s1'' ''hi'')) = False
   \<and> map_option status (sessions (snd (ClaudeCodeAdapter_execute claudeConfig authOk 2000
         (snd (ClaudeCodeAdapter_createSession 1000 sessionS1 freshAdapter)) ''s1'' ''hi'')) ''s1'')
       = Some Running
   \<and> isl (fst (CodexAdapter_execute authOk 2000
         (snd (CodexAdapter_createSession 1000 sessionS1 freshAdapter)) ''s1'' ''hi'')) = False
   \<and> map_option status (sessions (snd (CodexAdapter_execute authOk 2000
         (snd (CodexAdapter_createSession 1000 sessionS1 freshAdapter)) ''s1'' ''hi'')) ''s1'')
       = Some Running
   \<and> Running \<noteq> Idle \<and> Running \<noteq> Completed"
  by (simp add: ClaudeCodeAdapter_execute_def ClaudeCodeAdapter_initialize_def
        ClaudeCodeAdapter_createSession_def CodexAdapter_execute_def CodexAdapter_initialize_def
        CodexAdapter_createSession_def sessionS1_def freshAdapter_def authOk_def Let_def)

text \<open>
  C5, as the code has it. On an existing session of an adapter that is (or gets)
  initialized, a failure inside the \<^verbatim>\<open>try\<close> block sets the session's status to
  \<open>Failed\<close>, refreshes \<open>updatedAt\<close>, and throws the very error that was caught: no
  response is returned, and nothing wraps the error.
\<close>

theorem execute_failure_marks_failed_and_rethrows:
  assumes "ClaudeCodeAdapter_initialize authProvider a = Inr a1"
    and "CodexAdapter_initialize authProvider a = Inr a2"
    and "sessions a1 sid = Some s1" and "sessions a2 sid = Some s2"
    and "turnCredentials authProvider = Inl e"
  shows "ClaudeCodeAdapter_execute cfg authProvider now a sid p
           = (Inl e, a1\<lparr>sessions := (sessions a1)
                          (sid \<mapsto> s1\<lparr>status := Failed, updatedAt := now\<rparr>)\<rparr>)
         \<and> CodexAdapter_execute authProvider now a sid p
           = (Inl e, a2\<lparr>sessions := (sessions a2)
                          (sid \<mapsto> s2\<lparr>status := Failed, updatedAt := now\<rparr>)\<rparr>)"
  using assms by (simp add: ClaudeCodeAdapter_execute_def CodexAdapter_execute_def)

theorem execute_failure_marks_failed_and_rethrows_witness:
  "fst (ClaudeCodeAdapter_execute claudeConfig authFailsInTurn 2000
         (snd (ClaudeCodeAdapter_createSession 1000 sessionS1 freshAdapter)) ''s1'' ''hi'')
     = Inl networkDown
   \<and> map_option status (sessions (snd (ClaudeCodeAdapter_execute claudeConfig authFailsInTurn 2000
         (snd (ClaudeCodeAdapter_createSession 1000 sessionS1 freshAdapter)) ''s1'' ''hi'')) ''s1'')
     = Some Failed
   \<and> map_option updatedAt (sessions (snd (CodexAdapter_execute authFailsInTurn 2000
         (snd (ClaudeCodeAdapter_createSession 1000 sessionS1 freshAdapter)) ''s1'' ''hi'')) ''s1'')
     = Some 2000"
proof -
  let ?a = "snd (ClaudeCodeAdapter_createSession 1000 sessionS1 freshAdapter)"
  let ?s = "fst (ClaudeCodeAdapter_createSession 1000 sessionS1 freshAdapter)"
  have i1: "ClaudeCodeAdapter_initialize authFailsInTurn ?a = Inr (?a\<lparr>isInitialized := True\<rparr>)"
    by (simp add: ClaudeCodeAdapter_initialize_def ClaudeCodeAdapter_createSession_def
        freshAdapter_def authFailsInTurn_def Let_def)
  have i2: "CodexAdapter_initialize authFailsInTurn ?a = Inr (?a\<lparr>isInitialized := True\<rparr>)"
    by (simp add: CodexAdapter_initialize_def ClaudeCodeAdapter_createSession_def
        freshAdapter_def authFailsInTurn_def Let_def)
  have s: "sessions (?a\<lparr>isInitialized := True\<rparr>) ''s1'' = Some ?s"
    by (simp add: ClaudeCodeAdapter_createSession_def sessionS1_def Let_def)
  have t: "turnCredentials authFailsInTurn = Inl networkDown"
    by (simp add: authFailsInTurn_def)
  show ?thesis
    using execute_failure_marks_failed_and_rethrows [OF i1 i2 s s t, of claudeConfig 2000 "''hi''"]
    by simp
qed

text \<open>
  C5 as stated fails on the raised value: the credentials call of the turn throws the
  error \<^verbatim>\<open>Error('network down')\<close>, and \<^verbatim>\<open>execute\<close> throws that same value, whose name
  is \<^verbatim>\<open>'Error'\<close>; it is not an \<^verbatim>\<open>ExecutionError\<close> holding it as its cause.
\<close>

theorem execute_failure_rethrows_cause_counterexample:
  "turnCredentials authFailsInTurn = Inl networkDown
   \<and> fst (ClaudeCodeAdapter_execute claudeConfig authFailsInTurn 2000
         (snd (ClaudeCodeAdapter_createSession 1000 sessionS1 freshAdapter)) ''s1'' ''hi'')
       = Inl networkDown
   \<and> fst (CodexAdapter_execute authFailsInTurn 2000
         (snd (CodexAdapter_createSession 1000 sessionS1 freshAdapter)) ''s1'' ''hi'')
       = Inl networkDown
   \<and> errorName networkDown = Some ''Error''
   \<and> errorName networkDown \<noteq> Some ''ExecutionError''"
  by (simp add: ClaudeCodeAdapter_execute_def ClaudeCodeAdapter_initialize_def
        ClaudeCodeAdapter_createSession_def CodexAdapter_execute_def CodexAdapter_initialize_def
        CodexAdapter_createSession_def sessionS1_def freshAdapter_def authFailsInTurn_def
        networkDown_def Let_def)

section \<open>Properties of MCP server scoping\<close>

lemma dedupeBy_filter:
  "dedupeBy key (filter (\<lambda>x. P (key x)) xs) = filter (\<lambda>x. P (key x)) (dedupeBy key xs)"
proof (induction key xs rule: dedupeBy.induct)
  case (1 key)
  then show ?case by simp
next
  case (2 key x xs)
  have comm: "(\<lambda>xa. P (key xa) \<and> key xa \<noteq> key x) = (\<lambda>xa. key xa \<noteq> key x \<and> P (key xa))"
    by auto
  show ?case
  proof (cases "P (key x)")
    case True
    then show ?thesis using 2 by (simp add: comm)
  next
    case False
    have "filter (\<lambda>x. P (key x)) (filter (\<lambda>y. key y \<noteq> key x) xs) = filter (\<lambda>x. P (key x)) xs"
      using False by (auto intro: filter_cong)
    then show ?thesis using False 2 by (simp del: filter_filter)
  qed
qed




lemma set_dedupeBy_subset: "set (dedupeBy key xs) \<subseteq> set xs"
proof (induction key xs rule: dedupeBy.induct)
  case (1 key)
  then show ?case by simp
next
  case (2 key x xs)
  then show ?case by auto
qed










section \<open>Properties of the prompt service\<close>

lemma process_fields [simp]:
  "idleTimeoutMs (snd (process st now msg)) = idleTimeoutMs st"
  "lastActivityTime (snd (process st now msg)) = now"
  "messageCount (snd (process st now msg)) = messageCount st + 1"
  "enableTokenStreaming (snd (process st now msg)) = enableTokenStreaming st"
  by (auto simp: process_def Let_def split: option.splits)

lemma process_events:
  "fst (process st now msg)
     = (case capturedSessionId st of
          None \<Rightarrow> (case session_id msg of None \<Rightarrow> [] | Some sid \<Rightarrow> [SessionIdCaptured sid])
        | Some c \<Rightarrow> [])
       @ contentEvents (enableTokenStreaming st) (kind msg)"
  by (auto simp: process_def Let_def split: option.splits)

lemma process_captured:
  "capturedSessionId (snd (process st now msg))
     = (case capturedSessionId st of None \<Rightarrow> session_id msg | Some c \<Rightarrow> Some c)"
  by (auto simp: process_def Let_def split: option.splits)

lemma end_in_contentEvents: "list_ex isEnd (contentEvents b k) = isRawResult k"
  by (cases k) auto

lemma end_in_process: "list_ex isEnd (fst (process st now msg)) = isRawResult (kind msg)"
  by (simp add: process_events end_in_contentEvents split: option.splits)

lemma hasTimedOut_iff: "hasTimedOut st now = (\<not> now - lastActivityTime st \<le> idleTimeoutMs st)"
  by (auto simp: hasTimedOut_def)

lemma handleEvents_yield:
  "Yield e \<in> set (handleEvents repo evs) \<Longrightarrow> e \<in> set evs \<and> \<not> isEnd e \<and> (\<forall>x. e \<noteq> SessionIdCaptured x)"
  by (induction repo evs rule: handleEvents.induct) (auto split: if_splits)

lemma contentEvents_shape:
  "e \<in> set (contentEvents b k) \<Longrightarrow>
     (\<exists>t. e = Chunk t) \<or> (\<exists>c tu. e = Complete ASSISTANT c tu) \<or> (\<exists>u. e = Result u) \<or> (\<exists>r. e = End r)"
  by (cases k) (auto split: if_splits)

lemma process_shape:
  "e \<in> set (fst (process st now msg)) \<Longrightarrow>
     (\<exists>x. e = SessionIdCaptured x) \<or> (\<exists>t. e = Chunk t) \<or> (\<exists>c tu. e = Complete ASSISTANT c tu)
     \<or> (\<exists>u. e = Result u) \<or> (\<exists>r. e = End r)"
  using contentEvents_shape [of e "enableTokenStreaming st" "kind msg"]
  by (auto simp: process_events split: option.splits)

lemma streamLoop_yield_shape:
  "Yield e \<in> set (fst (streamLoop repo st msgs end)) \<Longrightarrow>
     (\<exists>t. e = Chunk t) \<or> (\<exists>c tu. e = Complete ASSISTANT c tu) \<or> (\<exists>u. e = Result u)"
proof (induction repo st msgs "end" rule: streamLoop.induct)
  case (1 repo st)
  then show ?case by simp
next
  case (2 repo st error)
  then show ?case by simp
next
  case (3 repo st now msg rest end')
  show ?case
  proof (cases "hasTimedOut st now")
    case True
    then show ?thesis using 3 by simp
  next
    case False
    obtain events st' where p: "process st now msg = (events, st')" by (cases "process st now msg")
    have here: "Yield e \<in> set (handleEvents repo events) \<Longrightarrow> ?thesis"
    proof -
      assume "Yield e \<in> set (handleEvents repo events)"
      then have "e \<in> set events" "\<not> isEnd e" "\<forall>x. e \<noteq> SessionIdCaptured x"
        using handleEvents_yield by blast+
      then show ?thesis using process_shape [of e st now msg] p by auto
    qed
    show ?thesis
    proof (cases "list_ex isEnd events")
      case True
      then show ?thesis using 3(2) False p here by simp
    next
      case noEnd: False
      obtain effects st'' ex where r: "streamLoop repo st' rest end' = (effects, st'', ex)"
        by (cases "streamLoop repo st' rest end'")
      have "Yield e \<in> set (handleEvents repo events) \<or> Yield e \<in> set effects"
        using 3(2) False p noEnd r by simp
      then show ?thesis
        using here "3.IH" [OF False p [symmetric] noEnd] r by auto
    qed
  qed
qed

lemma stateAfter_fields [simp]:
  "idleTimeoutMs (stateAfter st pre) = idleTimeoutMs st"
  "enableTokenStreaming (stateAfter st pre) = enableTokenStreaming st"
  "messageCount (stateAfter st pre) = messageCount st + length pre"
  "lastActivityTime (stateAfter st pre) = last (lastActivityTime st # map fst pre)"
  by (induction st pre rule: stateAfter.induct) auto

lemma stateAfter_captured_None:
  "capturedSessionId st = None \<Longrightarrow> \<forall>tm \<in> set pre. session_id (snd tm) = None \<Longrightarrow>
     capturedSessionId (stateAfter st pre) = None"
  by (induction st pre rule: stateAfter.induct) (auto simp: process_captured)

lemma streamLoop_prefix:
  assumes "withinIdleThreshold (idleTimeoutMs st) (lastActivityTime st) pre"
    and "\<forall>tm \<in> set pre. \<not> isRawResult (kind (snd tm))"
  shows "streamLoop repo st (pre @ later) end
           = (prefixEffects repo st pre @ fst (streamLoop repo (stateAfter st pre) later end),
              snd (streamLoop repo (stateAfter st pre) later end))"
  using assms
proof (induction st pre rule: stateAfter.induct)
  case (1 st)
  then show ?case by simp
next
  case (2 st now msg rest)
  let ?st' = "snd (process st now msg)"
  have nt: "\<not> hasTimedOut st now" using 2(2) by (simp add: hasTimedOut_iff)
  have ne: "\<not> list_ex isEnd (fst (process st now msg))"
    using 2(3) by (simp add: end_in_process)
  have w: "withinIdleThreshold (idleTimeoutMs ?st') (lastActivityTime ?st') rest"
    using 2(2) by simp
  have r: "\<forall>tm \<in> set rest. \<not> isRawResult (kind (snd tm))" using 2(3) by simp
  have ih: "streamLoop repo ?st' (rest @ later) end
           = (prefixEffects repo ?st' rest @ fst (streamLoop repo (stateAfter ?st' rest) later end),
              snd (streamLoop repo (stateAfter ?st' rest) later end))"
    using "2.IH" [OF w r] .
  show ?case
    using nt ne ih by (simp add: case_prod_beta)
qed

lemma handleEvents_content:
  "\<not> isRawResult k \<Longrightarrow> handleEvents repo (contentEvents b k) = map Yield (contentEvents b k)"
  by (cases k) auto

lemma prefixEffects_no_ids:
  assumes "capturedSessionId st = None"
    and "\<forall>tm \<in> set pre. session_id (snd tm) = None \<and> \<not> isRawResult (kind (snd tm))"
  shows "prefixEffects repo st pre
           = map Yield (concat (map (\<lambda>tm. contentEvents (enableTokenStreaming st) (kind (snd tm))) pre))"
  using assms
proof (induction st pre rule: stateAfter.induct)
  case (1 st)
  then show ?case by simp
next
  case (2 st now msg rest)
  have c: "capturedSessionId (snd (process st now msg)) = None"
    using 2 by (simp add: process_captured)
  have e: "fst (process st now msg) = contentEvents (enableTokenStreaming st) (kind msg)"
    using 2 by (simp add: process_events)
  show ?case
    using "2.IH" [OF c] 2(3) by (simp add: e handleEvents_content)
qed

lemma streamLoop_exit:
  assumes "withinIdleThreshold (idleTimeoutMs st) (lastActivityTime st) msgs"
  shows "snd (snd (streamLoop repo st msgs Done)) = LoopDone"
  using assms
proof (induction st msgs rule: stateAfter.induct)
  case (1 st)
  then show ?case by simp
next
  case (2 st now msg rest)
  have nt: "\<not> hasTimedOut st now" using 2(2) by (simp add: hasTimedOut_iff)
  have "snd (snd (streamLoop repo (snd (process st now msg)) rest Done)) = LoopDone"
    using "2.IH" 2(2) by simp
  then show ?case using nt by (simp add: case_prod_beta)
qed

lemma no_update_once_captured:
  "capturedSessionId st \<noteq> None \<Longrightarrow> UpdateSession x \<notin> set (fst (streamLoop repo st msgs end))"
proof (induction repo st msgs "end" rule: streamLoop.induct)
  case (1 repo st)
  then show ?case by simp
next
  case (2 repo st error)
  then show ?case by simp
next
  case (3 repo st now msg rest end')
  obtain c where c: "capturedSessionId st = Some c" using 3(2) by auto
  have ev: "fst (process st now msg) = contentEvents (enableTokenStreaming st) (kind msg)"
    by (simp add: process_events c)
  have cap: "capturedSessionId (snd (process st now msg)) \<noteq> None"
    by (simp add: process_captured c)
  have h: "UpdateSession x \<notin> set (handleEvents repo (contentEvents b k))" for b k
    by (cases k) auto
  show ?case
  proof (cases "hasTimedOut st now")
    case True
    then show ?thesis by simp
  next
    case False
    obtain events st' where p: "process st now msg = (events, st')" by (cases "process st now msg")
    have ev': "events = contentEvents (enableTokenStreaming st) (kind msg)" using ev p by simp
    have cap': "capturedSessionId st' \<noteq> None" using cap p by simp
    show ?thesis
    proof (cases "list_ex isEnd events")
      case True
      then show ?thesis using False p h ev' by simp
    next
      case noEnd: False
      have "UpdateSession x \<notin> set (fst (streamLoop repo st' rest end'))"
        using "3.IH" [OF False p [symmetric] noEnd cap'] .
      then show ?thesis using False p noEnd h ev' by (simp add: case_prod_beta)
    qed
  qed
qed

lemma digitChar_mem: "d < 10 \<Longrightarrow> digitChar d \<in> set ''0123456789''"
  unfolding digitChar_def by (rule nth_mem) simp

lemma showNat_chars: "set (showNat n) \<subseteq> set ''0123456789''"
proof (induction n rule: showNat.induct)
  case (1 n)
  show ?case
  proof (cases "n < 10")
    case True
    then show ?thesis using digitChar_mem [of n] by (subst showNat.simps) simp
  next
    case False
    have "n mod 10 < 10" by simp
    then have "digitChar (n mod 10) \<in> set ''0123456789''" by (rule digitChar_mem)
    then show ?thesis using False 1 by (subst showNat.simps) simp
  qed
qed

lemma showNat_no_b: "CHR ''b'' \<notin> set (showNat n)"
  using showNat_chars [of n] by auto

lemma showInt_no_b: "CHR ''b'' \<notin> set (showInt i)"
  by (simp add: showInt_def showNat_no_b)

lemma not_abort_idleTimeoutError: "\<not> isAbort (idleTimeoutError st now)"
proof -
  have "\<not> stringIncludes m ''abort''" if "CHR ''b'' \<notin> set m" for m
  proof
    assume "stringIncludes m ''abort''"
    then have "set ''abort'' \<subseteq> set m"
      unfolding stringIncludes_def by (rule set_mono_sublist)
    then show False using that by simp
  qed
  then show ?thesis
    by (simp add: idleTimeoutError_def newError_def Let_def showNat_no_b showInt_no_b)
qed

lemma collectEvents_content:
  "collectEvents (contentEvents b k) (ms, u)
     = (ms @ assistantMessageOf k,
        case k of RawResult (Some u') \<Rightarrow> Some u' | _ \<Rightarrow> u)"
  by (cases k) (auto split: option.splits)

lemma collectEvents_process:
  "fst (collectEvents (fst (process st now msg)) (ms, u)) = ms @ assistantMessageOf (kind msg)"
  by (auto simp: process_events collectEvents_content split: option.splits)

lemma collectLoop_messages:
  "fst (fst (collectLoop st acc msgs end))
     = fst acc @ concat (map (\<lambda>tm. assistantMessageOf (kind (snd tm))) msgs)"
proof (induction st acc msgs "end" rule: collectLoop.induct)
  case (1 st acc)
  then show ?case by simp
next
  case (2 st acc error)
  then show ?case by simp
next
  case (3 st acc now msg rest end')
  obtain events st' where p: "process st now msg = (events, st')" by (cases "process st now msg")
  have "fst (collectEvents events acc) = fst acc @ assistantMessageOf (kind msg)"
    using collectEvents_process [of st now msg "fst acc" "snd acc"] p by simp
  then show ?case using "3.IH" [OF p [symmetric]] p by simp
qed

lemma collectLoop_exit:
  "snd (collectLoop st acc msgs end) = (case end of Done \<Rightarrow> LoopDone | Throws e \<Rightarrow> LoopThrew e)"
  by (induction st acc msgs "end" rule: collectLoop.induct) (auto split: prod.splits)

lemma new_fields [simp]:
  "idleTimeoutMs (SDKMessageProcessor_new a b c d t) = d"
  "lastActivityTime (SDKMessageProcessor_new a b c d t) = t"
  "messageCount (SDKMessageProcessor_new a b c d t) = 0"
  "capturedSessionId (SDKMessageProcessor_new a b c d t) = None"
  "enableTokenStreaming (SDKMessageProcessor_new a b c d t) = c"
  by (simp_all add: SDKMessageProcessor_new_def)

lemma withinIdleThreshold_append:
  "withinIdleThreshold thr l (xs @ ys)
     = (withinIdleThreshold thr l xs \<and> withinIdleThreshold thr (last (l # map fst xs)) ys)"
  by (induction thr l xs rule: withinIdleThreshold.induct) auto

lemma no_update_in_content: "UpdateSession x \<notin> set (handleEvents repo (contentEvents b k))"
  by (cases k) auto

lemma complete_of_content:
  "filter isComplete (handleEvents repo (contentEvents b k))
     = map (\<lambda>(c, tu). Yield (Complete ASSISTANT c tu)) (assistantMessageOf k)"
  by (cases k) auto

lemma handleEvents_process:
  "handleEvents repo (fst (process st now msg))
     = (case capturedSessionId st of
          None \<Rightarrow> (case session_id msg of
                     None \<Rightarrow> []
                   | Some v \<Rightarrow> if repo then [UpdateSession v] else [])
        | Some c \<Rightarrow> [])
       @ handleEvents repo (contentEvents (enableTokenStreaming st) (kind msg))"
  by (simp add: process_events split: option.splits)

lemma complete_of_process:
  "filter isComplete (handleEvents repo (fst (process st now msg)))
     = map (\<lambda>(c, tu). Yield (Complete ASSISTANT c tu)) (assistantMessageOf (kind msg))"
  by (simp add: handleEvents_process complete_of_content split: option.splits)

lemma complete_of_prefix:
  "filter isComplete (prefixEffects repo st pre)
     = map (\<lambda>(c, tu). Yield (Complete ASSISTANT c tu))
         (concat (map (\<lambda>tm. assistantMessageOf (kind (snd tm))) pre))"
  by (induction repo st pre rule: prefixEffects.induct) (simp_all add: complete_of_process)

text \<open>
  C3. A stream that throws an abort error after its messages, each of which arrived
  within the idle threshold and none of which is the result event that ends the turn:
  the generator returns normally, it yields exactly one \<open>Stopped\<close> event, as its last
  event, and no error event. The non-streaming variant returns a result as well.
\<close>

theorem abort_yields_one_stopped:
  assumes "isAbort e"
    and "withinIdleThreshold IDLE_TIMEOUT_MS t0 msgs"
    and "\<forall>tm \<in> set msgs. \<not> isRawResult (kind (snd tm))"
    and "promptSessionStreaming sid repo stderr t0 (msgs, Throws e) = (effects, outcome)"
  shows "outcome = Returned
         \<and> count_list effects (Yield Stopped) = 1
         \<and> last effects = Yield Stopped
         \<and> (\<forall>x. Yield (ErrorEvent x) \<notin> set effects)
         \<and> (\<exists>r. promptSession sid repo t0 (msgs, Throws e) = Inr r)"
proof -
  let ?ex = "case repo of None \<Rightarrow> None | Some stored \<Rightarrow> stored"
  let ?st = "SDKMessageProcessor_new sid ?ex ENABLE_TOKEN_STREAMING IDLE_TIMEOUT_MS t0"
  let ?loop = "streamLoop (repo \<noteq> None) ?st msgs (Throws e)"
  have w: "withinIdleThreshold (idleTimeoutMs ?st) (lastActivityTime ?st) msgs"
    using assms(2) by simp
  have "streamLoop (repo \<noteq> None) ?st (msgs @ []) (Throws e)
          = (prefixEffects (repo \<noteq> None) ?st msgs
               @ fst (streamLoop (repo \<noteq> None) (stateAfter ?st msgs) [] (Throws e)),
             snd (streamLoop (repo \<noteq> None) (stateAfter ?st msgs) [] (Throws e)))"
    using streamLoop_prefix [OF w assms(3)] .
  then have loop: "?loop = (prefixEffects (repo \<noteq> None) ?st msgs, stateAfter ?st msgs, LoopThrew e)"
    by simp
  have shape: "Yield Stopped \<notin> set (fst ?loop)" "\<forall>x. Yield (ErrorEvent x) \<notin> set (fst ?loop)"
    using streamLoop_yield_shape [of _ "repo \<noteq> None" ?st msgs "Throws e"] by blast+
  have res: "promptSessionStreaming sid repo stderr t0 (msgs, Throws e)
          = (prefixEffects (repo \<noteq> None) ?st msgs @ [Yield Stopped], Returned)"
    unfolding promptSessionStreaming_def Let_def fst_conv snd_conv loop
    using assms(1) by simp
  have eff: "effects = prefixEffects (repo \<noteq> None) ?st msgs @ [Yield Stopped]"
    and out: "outcome = Returned"
    using res assms(4) by simp_all
  have cnt: "count_list (prefixEffects (repo \<noteq> None) ?st msgs) (Yield Stopped) = 0"
    using shape(1) loop by (simp add: count_list_0_iff)
  have ns: "\<exists>r. promptSession sid repo t0 (msgs, Throws e) = Inr r"
  proof -
    let ?p = "SDKMessageProcessor_new sid ?ex False IDLE_TIMEOUT_MS t0"
    obtain acc where c: "collectLoop ?p ([], None) msgs (Throws e) = (acc, LoopThrew e)"
      using collectLoop_exit [of ?p "([], None)" msgs "Throws e"]
      by (cases "collectLoop ?p ([], None) msgs (Throws e)") simp
    show ?thesis
      unfolding promptSession_def Let_def fst_conv snd_conv c using assms(1) by simp
  qed
  show ?thesis
    using out eff cnt shape(2) loop ns by simp
qed

lemma showInt_timeout: "showInt (roundDiv1000 IDLE_TIMEOUT_MS) = ''300''"
  by (simp add: showInt_def roundDiv1000_def IDLE_TIMEOUT_MS_def showNat.simps digitChar_def)

text \<open>
  C6, as the code has it. The threshold is 300000 milliseconds and the clock is read
  only when a message arrives. When a message arrives more than the threshold after
  the last activity (the start or the previous message), the call throws before that
  message is processed: the effects are those of the messages before it, and the
  thrown value is a plain \<^verbatim>\<open>Error\<close> whose message text states the rounded idle
  seconds, the timeout seconds and the number of messages processed so far. When every
  message arrives within the threshold of the activity before it, each one resets the
  clock and no timeout is raised; the end of the stream is not checked against the
  clock, so a stream that completes makes the call return, however long it was silent
  before.
\<close>

theorem idle_timeout_raised_and_reset:
  "(withinIdleThreshold IDLE_TIMEOUT_MS t0 pre
      \<and> (\<forall>tm \<in> set pre. \<not> isRawResult (kind (snd tm)))
      \<and> now - last (t0 # map fst pre) > IDLE_TIMEOUT_MS \<longrightarrow>
    snd (promptSessionStreaming sid repo stderr t0 (pre @ (now, m) # rest, fin))
      = Threw (JsError ''Error''
          (''Claude SDK error after '' @ showNat (length pre) @ '' messages: ''
           @ ''Claude SDK idle timeout: No activity for ''
           @ showInt (roundDiv1000 (now - last (t0 # map fst pre)))
           @ ''s (timeout: 300s). SDK may have hung or crashed. Last message type was #''
           @ showNat (length pre) @ ''.'' @ errorContext stderr))
    \<and> fst (promptSessionStreaming sid repo stderr t0 (pre @ (now, m) # rest, fin))
        = fst (promptSessionStreaming sid repo stderr t0 (pre, Done)))
   \<and> (withinIdleThreshold IDLE_TIMEOUT_MS t0 msgs \<longrightarrow>
        snd (promptSessionStreaming sid repo stderr t0 (msgs, Done)) = Returned)"
proof (intro conjI impI)
  let ?ex = "case repo of None \<Rightarrow> None | Some stored \<Rightarrow> stored"
  let ?st = "SDKMessageProcessor_new sid ?ex ENABLE_TOKEN_STREAMING IDLE_TIMEOUT_MS t0"
  {
    assume a: "withinIdleThreshold IDLE_TIMEOUT_MS t0 pre
      \<and> (\<forall>tm \<in> set pre. \<not> isRawResult (kind (snd tm)))
      \<and> now - last (t0 # map fst pre) > IDLE_TIMEOUT_MS"
    let ?st1 = "stateAfter ?st pre"
    have w: "withinIdleThreshold (idleTimeoutMs ?st) (lastActivityTime ?st) pre"
      using a by simp
    have r: "\<forall>tm \<in> set pre. \<not> isRawResult (kind (snd tm))" using a by simp
    have to: "hasTimedOut ?st1 now"
      using a by (simp add: hasTimedOut_def)
    have x: "streamLoop (repo \<noteq> None) ?st1 ((now, m) # rest) fin
               = ([], ?st1, LoopThrew (idleTimeoutError ?st1 now))"
      using to by simp
    have loop: "streamLoop (repo \<noteq> None) ?st (pre @ (now, m) # rest) fin
               = (prefixEffects (repo \<noteq> None) ?st pre, ?st1, LoopThrew (idleTimeoutError ?st1 now))"
      using streamLoop_prefix [OF w r, of "repo \<noteq> None" "(now, m) # rest" fin]
      unfolding x by simp
    have "snd (promptSessionStreaming sid repo stderr t0 (pre @ (now, m) # rest, fin))
            = Threw (enhancedError ?st1 (idleTimeoutError ?st1 now) stderr)"
      unfolding promptSessionStreaming_def Let_def fst_conv snd_conv loop
      using not_abort_idleTimeoutError [of ?st1 now] by simp
    also have "enhancedError ?st1 (idleTimeoutError ?st1 now) stderr
       = JsError ''Error''
          (''Claude SDK error after '' @ showNat (length pre) @ '' messages: ''
           @ ''Claude SDK idle timeout: No activity for ''
           @ showInt (roundDiv1000 (now - last (t0 # map fst pre)))
           @ ''s (timeout: 300s). SDK may have hung or crashed. Last message type was #''
           @ showNat (length pre) @ ''.'' @ errorContext stderr)"
      by (simp add: enhancedError_def idleTimeoutError_def newError_def Let_def showInt_timeout)
    finally show "snd (promptSessionStreaming sid repo stderr t0 (pre @ (now, m) # rest, fin))
      = Threw (JsError ''Error''
          (''Claude SDK error after '' @ showNat (length pre) @ '' messages: ''
           @ ''Claude SDK idle timeout: No activity for ''
           @ showInt (roundDiv1000 (now - last (t0 # map fst pre)))
           @ ''s (timeout: 300s). SDK may have hung or crashed. Last message type was #''
           @ showNat (length pre) @ ''.'' @ errorContext stderr))" .
    have dn: "streamLoop (repo \<noteq> None) ?st pre Done
               = (prefixEffects (repo \<noteq> None) ?st pre, ?st1, LoopDone)"
      using streamLoop_prefix [OF w r, of "repo \<noteq> None" "[]" Done] by simp
    have "fst (promptSessionStreaming sid repo stderr t0 (pre @ (now, m) # rest, fin))
            = prefixEffects (repo \<noteq> None) ?st pre"
      unfolding promptSessionStreaming_def Let_def fst_conv snd_conv loop
      using not_abort_idleTimeoutError [of ?st1 now] by simp
    moreover have "fst (promptSessionStreaming sid repo stderr t0 (pre, Done))
            = prefixEffects (repo \<noteq> None) ?st pre"
      unfolding promptSessionStreaming_def Let_def fst_conv snd_conv dn by simp
    ultimately show "fst (promptSessionStreaming sid repo stderr t0 (pre @ (now, m) # rest, fin))
        = fst (promptSessionStreaming sid repo stderr t0 (pre, Done))"
      by simp
  }
  {
    assume a: "withinIdleThreshold IDLE_TIMEOUT_MS t0 msgs"
    have w: "withinIdleThreshold (idleTimeoutMs ?st) (lastActivityTime ?st) msgs"
      using a by simp
    obtain effs st' where l: "streamLoop (repo \<noteq> None) ?st msgs Done = (effs, st', LoopDone)"
      using streamLoop_exit [OF w, of "repo \<noteq> None"]
      by (cases "streamLoop (repo \<noteq> None) ?st msgs Done") auto
    show "snd (promptSessionStreaming sid repo stderr t0 (msgs, Done)) = Returned"
      unfolding promptSessionStreaming_def Let_def fst_conv snd_conv l by simp
  }
qed

text \<open>
  C7. For messages followed by the one terminal result event, the complete events that
  the generator yields are, in order, one per assistant message, each with the content
  and tool uses of its own message; the non-streaming variant returns the same
  messages as separate entries.
\<close>

theorem assistant_messages_stay_separate:
  assumes "\<forall>tm \<in> set pre. \<not> isRawResult (kind (snd tm))"
    and "withinIdleThreshold IDLE_TIMEOUT_MS t0
           (pre @ [(now, \<lparr>kind = RawResult u, session_id = vid\<rparr>)])"
  shows "filter isComplete
           (fst (promptSessionStreaming sid repo stderr t0
                  (pre @ [(now, \<lparr>kind = RawResult u, session_id = vid\<rparr>)], Done)))
           = map (\<lambda>(c, tu). Yield (Complete ASSISTANT c tu))
               (concat (map (\<lambda>tm. assistantMessageOf (kind (snd tm))) pre))
         \<and> (\<exists>r. promptSession sid repo t0
                   (pre @ [(now, \<lparr>kind = RawResult u, session_id = vid\<rparr>)], Done) = Inr r
                \<and> messages r = concat (map (\<lambda>tm. assistantMessageOf (kind (snd tm))) pre))"
proof -
  let ?ex = "case repo of None \<Rightarrow> None | Some stored \<Rightarrow> stored"
  let ?st = "SDKMessageProcessor_new sid ?ex ENABLE_TOKEN_STREAMING IDLE_TIMEOUT_MS t0"
  let ?m = "\<lparr>kind = RawResult u, session_id = vid\<rparr>"
  let ?st1 = "stateAfter ?st pre"
  have w: "withinIdleThreshold (idleTimeoutMs ?st) (lastActivityTime ?st) pre"
    and g: "now - last (t0 # map fst pre) \<le> IDLE_TIMEOUT_MS"
    using assms(2) by (simp_all add: withinIdleThreshold_append)
  have nt: "\<not> hasTimedOut ?st1 now" using g by (simp add: hasTimedOut_def)
  have en: "list_ex isEnd (fst (process ?st1 now ?m))" by (simp add: end_in_process)
  have x: "fst (streamLoop (repo \<noteq> None) ?st1 [(now, ?m)] Done)
             = handleEvents (repo \<noteq> None) (fst (process ?st1 now ?m))"
    using nt en by (simp add: case_prod_beta)
  have loop: "fst (streamLoop (repo \<noteq> None) ?st (pre @ [(now, ?m)]) Done)
               = prefixEffects (repo \<noteq> None) ?st pre
                 @ handleEvents (repo \<noteq> None) (fst (process ?st1 now ?m))"
    using streamLoop_prefix [OF w assms(1), of "repo \<noteq> None" "[(now, ?m)]" Done] x by simp
  have ex: "snd (snd (streamLoop (repo \<noteq> None) ?st (pre @ [(now, ?m)]) Done)) = LoopDone"
    using streamLoop_exit [of ?st "pre @ [(now, ?m)]" "repo \<noteq> None"] assms(2) by simp
  obtain effs st' where l: "streamLoop (repo \<noteq> None) ?st (pre @ [(now, ?m)]) Done = (effs, st', LoopDone)"
    using ex by (cases "streamLoop (repo \<noteq> None) ?st (pre @ [(now, ?m)]) Done") auto
  have effs: "effs = prefixEffects (repo \<noteq> None) ?st pre
                 @ handleEvents (repo \<noteq> None) (fst (process ?st1 now ?m))"
    using loop l by simp
  have "fst (promptSessionStreaming sid repo stderr t0 (pre @ [(now, ?m)], Done)) = effs"
    unfolding promptSessionStreaming_def Let_def fst_conv snd_conv l by simp
  then have streaming: "filter isComplete
           (fst (promptSessionStreaming sid repo stderr t0 (pre @ [(now, ?m)], Done)))
           = map (\<lambda>(c, tu). Yield (Complete ASSISTANT c tu))
               (concat (map (\<lambda>tm. assistantMessageOf (kind (snd tm))) pre))"
    by (simp add: effs complete_of_prefix complete_of_process)
  let ?p = "SDKMessageProcessor_new sid ?ex False IDLE_TIMEOUT_MS t0"
  obtain acc where c: "collectLoop ?p ([], None) (pre @ [(now, ?m)]) Done = (acc, LoopDone)"
    using collectLoop_exit [of ?p "([], None)" "pre @ [(now, ?m)]" Done]
    by (cases "collectLoop ?p ([], None) (pre @ [(now, ?m)]) Done") simp
  have "fst acc = concat (map (\<lambda>tm. assistantMessageOf (kind (snd tm))) pre)"
    using collectLoop_messages [of ?p "([], None)" "pre @ [(now, ?m)]" Done] c by simp
  moreover have "promptSession sid repo t0 (pre @ [(now, ?m)], Done) = Inr (promptResult acc)"
    unfolding promptSession_def Let_def fst_conv snd_conv c by simp
  ultimately have "\<exists>r. promptSession sid repo t0 (pre @ [(now, ?m)], Done) = Inr r
                \<and> messages r = concat (map (\<lambda>tm. assistantMessageOf (kind (snd tm))) pre)"
    by (simp add: promptResult_def)
  then show ?thesis using streaming by blast
qed

text \<open>
  C8. Let the first raw event that reveals the continuation id come after events that
  do not reveal it. With a session repository, the effects of the call are the events
  of those earlier messages, then the update of \<open>sdk_session_id\<close> with the revealed
  id, then everything else, with no further update; and no \<open>SessionIdCaptured\<close> event
  is ever yielded.
\<close>

theorem session_id_captured_persisted_first:
  assumes "sessionsRepo = Some stored"
    and "\<forall>tm \<in> set pre. session_id (snd tm) = None \<and> \<not> isRawResult (kind (snd tm))"
    and "session_id m = Some vendorId"
    and "withinIdleThreshold IDLE_TIMEOUT_MS t0 (pre @ [(now, m)])"
  shows "(\<exists>after. fst (promptSessionStreaming sid sessionsRepo stderr t0 (pre @ (now, m) # rest, fin))
            = map Yield (concat (map (\<lambda>tm. contentEvents True (kind (snd tm))) pre))
              @ UpdateSession vendorId # after
          \<and> (\<forall>x. UpdateSession x \<notin> set after))
         \<and> (\<forall>x. Yield (SessionIdCaptured x)
                  \<notin> set (fst (promptSessionStreaming sid sessionsRepo stderr t0
                               (pre @ (now, m) # rest, fin))))"
proof -
  let ?st = "SDKMessageProcessor_new sid stored ENABLE_TOKEN_STREAMING IDLE_TIMEOUT_MS t0"
  let ?st1 = "stateAfter ?st pre"
  let ?st2 = "snd (process ?st1 now m)"
  let ?content = "handleEvents True (contentEvents True (kind m))"
  let ?msgs = "pre @ (now, m) # rest"
  have w: "withinIdleThreshold (idleTimeoutMs ?st) (lastActivityTime ?st) pre"
    and g: "now - last (t0 # map fst pre) \<le> IDLE_TIMEOUT_MS"
    using assms(4) by (simp_all add: withinIdleThreshold_append)
  have r: "\<forall>tm \<in> set pre. \<not> isRawResult (kind (snd tm))" using assms(2) by simp
  have ids: "\<forall>tm \<in> set pre. session_id (snd tm) = None" using assms(2) by simp
  have nt: "\<not> hasTimedOut ?st1 now" using g by (simp add: hasTimedOut_def)
  have cap1: "capturedSessionId ?st1 = None"
    using stateAfter_captured_None [OF _ ids, of ?st] by simp
  have cap2: "capturedSessionId ?st2 \<noteq> None"
    by (simp add: process_captured cap1 assms(3))
  have e0: "enableTokenStreaming ?st = True" and e1: "enableTokenStreaming ?st1 = True"
    by (simp_all add: ENABLE_TOKEN_STREAMING_def)
  have "handleEvents True (fst (process ?st1 now m))
          = UpdateSession vendorId
            # handleEvents True (contentEvents (enableTokenStreaming ?st1) (kind m))"
    unfolding handleEvents_process cap1 assms(3) by simp
  then have he: "handleEvents True (fst (process ?st1 now m)) = UpdateSession vendorId # ?content"
    unfolding e1 .
  have c0: "capturedSessionId ?st = None" by simp
  have pe: "prefixEffects True ?st pre
              = map Yield (concat (map (\<lambda>tm. contentEvents True (kind (snd tm))) pre))"
    using prefixEffects_no_ids [OF c0 assms(2), of True] unfolding e0 .
  obtain tail where x: "fst (streamLoop True ?st1 ((now, m) # rest) fin) = UpdateSession vendorId # tail"
    and tl: "\<forall>x. UpdateSession x \<notin> set tail"
  proof (cases "list_ex isEnd (fst (process ?st1 now m))")
    case True
    have "fst (streamLoop True ?st1 ((now, m) # rest) fin) = UpdateSession vendorId # ?content"
      using nt True he by (simp add: case_prod_beta)
    then show ?thesis using that [of ?content] no_update_in_content by blast
  next
    case False
    have "fst (streamLoop True ?st1 ((now, m) # rest) fin)
            = UpdateSession vendorId # (?content @ fst (streamLoop True ?st2 rest fin))"
      using nt False he by (simp add: case_prod_beta)
    moreover have "\<forall>x. UpdateSession x \<notin> set (?content @ fst (streamLoop True ?st2 rest fin))"
      using no_update_in_content no_update_once_captured [OF cap2] by simp
    ultimately show ?thesis using that by blast
  qed
  have loop: "fst (streamLoop True ?st ?msgs fin)
                = map Yield (concat (map (\<lambda>tm. contentEvents True (kind (snd tm))) pre))
                  @ UpdateSession vendorId # tail"
    using streamLoop_prefix [OF w r, of True "(now, m) # rest" fin] x pe by simp
  have shape: "\<forall>x. Yield (SessionIdCaptured x) \<notin> set (fst (streamLoop True ?st ?msgs fin))"
    using streamLoop_yield_shape [of _ True ?st ?msgs fin] by blast
  obtain effs st' ex where l: "streamLoop True ?st ?msgs fin = (effs, st', ex)"
    by (cases "streamLoop True ?st ?msgs fin")
  have res: "fst (promptSessionStreaming sid sessionsRepo stderr t0 (?msgs, fin)) = effs
             \<or> fst (promptSessionStreaming sid sessionsRepo stderr t0 (?msgs, fin))
                  = effs @ [Yield Stopped]"
    unfolding promptSessionStreaming_def Let_def fst_conv snd_conv assms(1)
    using l by (cases ex) (simp_all)
  have effs: "effs = map Yield (concat (map (\<lambda>tm. contentEvents True (kind (snd tm))) pre))
                  @ UpdateSession vendorId # tail"
    using loop l by simp
  from res show ?thesis
  proof
    assume a: "fst (promptSessionStreaming sid sessionsRepo stderr t0 (?msgs, fin)) = effs"
    have "\<forall>x. Yield (SessionIdCaptured x) \<notin> set effs" using shape l by simp
    then show ?thesis using a effs tl by auto
  next
    assume a: "fst (promptSessionStreaming sid sessionsRepo stderr t0 (?msgs, fin))
                  = effs @ [Yield Stopped]"
    have n: "\<forall>x. Yield (SessionIdCaptured x) \<notin> set (effs @ [Yield Stopped])"
      using shape l by simp
    have "effs @ [Yield Stopped]
            = map Yield (concat (map (\<lambda>tm. contentEvents True (kind (snd tm))) pre))
                  @ UpdateSession vendorId # (tail @ [Yield Stopped])"
      using effs by simp
    moreover have "\<forall>x. UpdateSession x \<notin> set (tail @ [Yield Stopped])" using tl by simp
    ultimately show ?thesis using a n by metis
  qed
qed

theorem abort_yields_one_stopped_witness:
  "isAbort abortError
   \<and> withinIdleThreshold IDLE_TIMEOUT_MS 0 [(100, initMsg), (200, toolCallMsg)]
   \<and> promptSessionStreaming ''s1'' (Some None) [] 0
         ([(100, initMsg), (200, toolCallMsg)], Throws abortError)
       = ([UpdateSession ''vendor-1'',
           Yield (Complete ASSISTANT [(''tool_use'', ''Read'')] (Some [(''t1'', ''Read'')])),
           Yield Stopped], Returned)
   \<and> count_list [UpdateSession ''vendor-1'',
           Yield (Complete ASSISTANT [(''tool_use'', ''Read'')] (Some [(''t1'', ''Read'')])),
           Yield Stopped] (Yield Stopped) = 1
   \<and> (\<exists>r. promptSession ''s1'' (Some None) 0
              ([(100, initMsg), (200, toolCallMsg)], Throws abortError) = Inr r)"
proof -
  have h1: "isAbort abortError" by code_simp
  have h2: "withinIdleThreshold IDLE_TIMEOUT_MS 0 [(100, initMsg), (200, toolCallMsg)]"
    by code_simp
  have h3: "\<forall>tm \<in> set [(100, initMsg), (200, toolCallMsg)]. \<not> isRawResult (kind (snd tm))"
    by (simp add: initMsg_def toolCallMsg_def)
  have h4: "promptSessionStreaming ''s1'' (Some None) [] 0
         ([(100, initMsg), (200, toolCallMsg)], Throws abortError)
       = ([UpdateSession ''vendor-1'',
           Yield (Complete ASSISTANT [(''tool_use'', ''Read'')] (Some [(''t1'', ''Read'')])),
           Yield Stopped], Returned)"
    by code_simp
  show ?thesis
    using h1 h2 h3 h4 abort_yields_one_stopped [OF h1 h2 h3 h4] by blast
qed

theorem idle_timeout_raised_and_reset_witness:
  "withinIdleThreshold IDLE_TIMEOUT_MS 0 [(1000, initMsg)]
   \<and> 400000 - last (0 # map fst [(1000 :: int, initMsg)]) > IDLE_TIMEOUT_MS
   \<and> snd (promptSessionStreaming ''s1'' (Some None) [] 0
            ([(1000, initMsg), (400000, answerMsg)], Done))
       = Threw (JsError ''Error''
           ''Claude SDK error after 1 messages: Claude SDK idle timeout: No activity for 399s (timeout: 300s). SDK may have hung or crashed. Last message type was #1.'')
   \<and> withinIdleThreshold IDLE_TIMEOUT_MS 0
         [(200000, initMsg), (400000, toolCallMsg), (600000, answerMsg)]
   \<and> snd (promptSessionStreaming ''s1'' (Some None) [] 0
            ([(200000, initMsg), (400000, toolCallMsg), (600000, answerMsg)], Done))
       = Returned"
proof -
  have h1: "withinIdleThreshold IDLE_TIMEOUT_MS 0 [(1000, initMsg)]" by code_simp
  have h2: "\<forall>tm \<in> set [(1000, initMsg)]. \<not> isRawResult (kind (snd tm))"
    by (simp add: initMsg_def)
  have h3: "400000 - last (0 # map fst [(1000 :: int, initMsg)]) > IDLE_TIMEOUT_MS"
    by (simp add: IDLE_TIMEOUT_MS_def)
  have h4: "withinIdleThreshold IDLE_TIMEOUT_MS 0
         [(200000, initMsg), (400000, toolCallMsg), (600000, answerMsg)]"
    by code_simp
  have n: "showNat (length [(1000 :: int, initMsg)]) = ''1''"
    "showInt (roundDiv1000 (400000 - last (0 # map fst [(1000 :: int, initMsg)]))) = ''399''"
    "errorContext [] = []"
    by code_simp+
  show ?thesis
    using h1 h2 h3 h4
      idle_timeout_raised_and_reset [where ?t0.0 = 0 and pre = "[(1000, initMsg)]"
        and now = 400000 and m = answerMsg and rest = "[]" and fin = Done
        and sid = "''s1''" and repo = "Some None" and stderr = "[]"
        and msgs = "[(200000, initMsg), (400000, toolCallMsg), (600000, answerMsg)]"]
    unfolding n by simp
qed

text \<open>
  C6 as stated fails in two ways. A message arrives 399 seconds after the previous
  one: the value thrown to the caller is an \<^verbatim>\<open>Error\<close> named \<^verbatim>\<open>'Error'\<close>, not an
  \<^verbatim>\<open>IdleTimeoutError\<close>, and it carries the idle seconds and the message count only
  inside its message text. And when no further event arrives after a message and the
  stream then ends, the call returns and nothing is raised, whatever time has passed.
\<close>

theorem idle_timeout_plain_error_counterexample:
  "snd (promptSessionStreaming ''s1'' (Some None) [] 0
         ([(1000, initMsg), (400000, answerMsg)], Done))
     = Threw (JsError ''Error''
         ''Claude SDK error after 1 messages: Claude SDK idle timeout: No activity for 399s (timeout: 300s). SDK may have hung or crashed. Last message type was #1.'')
   \<and> errorName (JsError ''Error''
         ''Claude SDK error after 1 messages: Claude SDK idle timeout: No activity for 399s (timeout: 300s). SDK may have hung or crashed. Last message type was #1.'')
       = Some ''Error''
   \<and> errorName (JsError ''Error''
         ''Claude SDK error after 1 messages: Claude SDK idle timeout: No activity for 399s (timeout: 300s). SDK may have hung or crashed. Last message type was #1.'')
       \<noteq> Some ''IdleTimeoutError''
   \<and> promptSessionStreaming ''s1'' (Some None) [] 0 ([(1000, initMsg)], Done)
       = ([UpdateSession ''vendor-1''], Returned)
   \<and> promptSessionStreaming ''s1'' (Some None) [] 0 ([], Done) = ([], Returned)"
proof -
  have a: "snd (promptSessionStreaming ''s1'' (Some None) [] 0
         ([(1000, initMsg), (400000, answerMsg)], Done))
     = Threw (JsError ''Error''
         ''Claude SDK error after 1 messages: Claude SDK idle timeout: No activity for 399s (timeout: 300s). SDK may have hung or crashed. Last message type was #1.'')"
    by code_simp
  have b: "promptSessionStreaming ''s1'' (Some None) [] 0 ([(1000, initMsg)], Done)
       = ([UpdateSession ''vendor-1''], Returned)"
    by code_simp
  have c: "promptSessionStreaming ''s1'' (Some None) [] 0 ([], Done) = ([], Returned)"
    by code_simp
  show ?thesis using a b c by simp
qed

theorem assistant_messages_stay_separate_witness:
  "withinIdleThreshold IDLE_TIMEOUT_MS 0
        ([(100, initMsg), (200, toolCallMsg), (300, answerMsg)]
         @ [(400, \<lparr>kind = RawResult None, session_id = Some ''vendor-1''\<rparr>)])
   \<and> filter isComplete
        (fst (promptSessionStreaming ''s1'' (Some None) [] 0
               ([(100, initMsg), (200, toolCallMsg), (300, answerMsg)]
                @ [(400, \<lparr>kind = RawResult None, session_id = Some ''vendor-1''\<rparr>)], Done)))
       = [Yield (Complete ASSISTANT [(''tool_use'', ''Read'')] (Some [(''t1'', ''Read'')])),
          Yield (Complete ASSISTANT [(''text'', ''done'')] None)]
   \<and> (\<exists>r. promptSession ''s1'' (Some None) 0
              ([(100, initMsg), (200, toolCallMsg), (300, answerMsg)]
               @ [(400, \<lparr>kind = RawResult None, session_id = Some ''vendor-1''\<rparr>)], Done) = Inr r
            \<and> messages r = [([(''tool_use'', ''Read'')], Some [(''t1'', ''Read'')]),
                             ([(''text'', ''done'')], None)])"
proof -
  let ?pre = "[(100, initMsg), (200, toolCallMsg), (300, answerMsg)]"
  have h1: "\<forall>tm \<in> set ?pre. \<not> isRawResult (kind (snd tm))"
    by (simp add: initMsg_def toolCallMsg_def answerMsg_def)
  have h2: "withinIdleThreshold IDLE_TIMEOUT_MS 0
        (?pre @ [(400, \<lparr>kind = RawResult None, session_id = Some ''vendor-1''\<rparr>)])"
    by code_simp
  have c: "concat (map (\<lambda>tm. assistantMessageOf (kind (snd tm))) ?pre)
         = [([(''tool_use'', ''Read'')], Some [(''t1'', ''Read'')]), ([(''text'', ''done'')], None)]"
    by (simp add: initMsg_def toolCallMsg_def answerMsg_def)
  show ?thesis
    using h1 h2 assistant_messages_stay_separate [OF h1 h2, of "''s1''" "Some None" "[]"]
    unfolding c by simp
qed

theorem session_id_captured_persisted_first_witness:
  "session_id earlyChunk = None
   \<and> session_id toolCallMsg = Some ''vendor-1''
   \<and> withinIdleThreshold IDLE_TIMEOUT_MS 0 ([(100, earlyChunk)] @ [(200, toolCallMsg)])
   \<and> fst (promptSessionStreaming ''s1'' (Some None) [] 0
            ([(100, earlyChunk)] @ (200, toolCallMsg) # [(300, answerMsg), (400, resultMsg)], Done))
       = [Yield (Chunk ''Hel''), UpdateSession ''vendor-1'',
          Yield (Complete ASSISTANT [(''tool_use'', ''Read'')] (Some [(''t1'', ''Read'')])),
          Yield (Complete ASSISTANT [(''text'', ''done'')] None),
          Yield (Result (Some \<lparr>usage_input_tokens = Some 10, usage_output_tokens = Some 5\<rparr>))]
   \<and> Yield (SessionIdCaptured ''vendor-1'')
         \<notin> set (fst (promptSessionStreaming ''s1'' (Some None) [] 0
                 ([(100, earlyChunk)] @ (200, toolCallMsg) # [(300, answerMsg), (400, resultMsg)],
                  Done)))"
proof -
  have h1: "Some None = Some (None :: string option)" by simp
  have h2: "\<forall>tm \<in> set [(100, earlyChunk)].
              session_id (snd tm) = None \<and> \<not> isRawResult (kind (snd tm))"
    by (simp add: earlyChunk_def)
  have h3: "session_id toolCallMsg = Some ''vendor-1''" by (simp add: toolCallMsg_def)
  have h4: "withinIdleThreshold IDLE_TIMEOUT_MS 0 ([(100, earlyChunk)] @ [(200, toolCallMsg)])"
    by code_simp
  have ev: "fst (promptSessionStreaming ''s1'' (Some None) [] 0
            ([(100, earlyChunk)] @ (200, toolCallMsg) # [(300, answerMsg), (400, resultMsg)], Done))
       = [Yield (Chunk ''Hel''), UpdateSession ''vendor-1'',
          Yield (Complete ASSISTANT [(''tool_use'', ''Read'')] (Some [(''t1'', ''Read'')])),
          Yield (Complete ASSISTANT [(''text'', ''done'')] None),
          Yield (Result (Some \<lparr>usage_input_tokens = Some 10, usage_output_tokens = Some 5\<rparr>))]"
    by code_simp
  have h5: "session_id earlyChunk = None" by (simp add: earlyChunk_def)
  show ?thesis
    using h3 h4 h5 ev
      session_id_captured_persisted_first [OF h1 h2 h3 h4, of "''s1''" "[]"
        "[(300, answerMsg), (400, resultMsg)]" Done]
    by blast
qed

end
